theory Spec2Isabelle
  imports Complex_Main "HOL-Library.Char_ord" "HOL-Library.List_Lexorder" "HOL-Library.Sublist"
begin

section \<open>Data model: cells, frames, errors\<close>

text \<open>
  The dashboard script \<^verbatim>\<open>app.py\<close> works on pandas data frames. A frame is modelled
  as the list of its column names and the list of its rows, a row being the list of its
  cells in column order. A cell is a floating-point number, a missing value
  (\<^verbatim>\<open>NaN\<close>, also standing for \<^verbatim>\<open>NaT\<close>), a string or a calendar date (a day
  number). A number is a finite float64, modelled as the real it denotes; the filter only
  compares numbers, which is exact. What the library's floating-point summation and
  division return for a mean is not fixed by the script: the model takes it from a
  parameter (\<open>lib\<close> below).
\<close>

datatype cell = Num real | NaN | Str string | Date int

record frame =
  columns :: "string list"
  rows :: "cell list list"

text \<open>Python exceptions the script can raise, as values.\<close>

datatype error =
    FileNotFoundError
  | ValueError
  | KeyError string
  | TypeError
  | NameError string

text \<open>A cell the sheet does not hold reads as missing, as \<^verbatim>\<open>read_excel\<close> pads it.\<close>

definition cell_at :: "nat \<Rightarrow> cell list \<Rightarrow> cell" where
  "cell_at i r = (if i < length r then r ! i else NaN)"

fun col_index :: "string \<Rightarrow> string list \<Rightarrow> nat option" where
  "col_index n [] = None"
| "col_index n (c # cs) = (if c = n then Some 0 else map_option Suc (col_index n cs))"

text \<open>\<^verbatim>\<open>df[name]\<close>: the column as a series, or \<^verbatim>\<open>KeyError\<close>.\<close>

definition getitem :: "frame \<Rightarrow> string \<Rightarrow> error + cell list" where
  "getitem df name =
     (case col_index name (columns df) of
        None \<Rightarrow> Inl (KeyError name)
      | Some i \<Rightarrow> Inr (map (cell_at i) (rows df)))"

fun sequence_err :: "(error + 'a) list \<Rightarrow> error + 'a list" where
  "sequence_err [] = Inr []"
| "sequence_err (x # xs) =
     (case x of
        Inl e \<Rightarrow> Inl e
      | Inr v \<Rightarrow> (case sequence_err xs of Inl e \<Rightarrow> Inl e | Inr vs \<Rightarrow> Inr (v # vs)))"

section \<open>Data Loader\<close>

text \<open>
  \<^verbatim>\<open>
  def load_data():
      df = pd.read_excel("GJ25NS018 Karan Sen data analytics.xlsx", sheet_name="Sheet1")
      return df.iloc[:, :8]
  \<close>
  The file system maps a path to a workbook, a workbook maps a sheet name to the frame
  \<^verbatim>\<open>read_excel\<close> parses from it. A missing file raises \<^verbatim>\<open>FileNotFoundError\<close>, a
  missing sheet \<^verbatim>\<open>ValueError\<close>. The slice \<^verbatim>\<open>iloc[:, :8]\<close> is a Python slice: it
  keeps the first eight columns and, on fewer than eight, all of them.
\<close>

type_synonym workbook = "string \<Rightarrow> frame option"
type_synonym filesystem = "string \<Rightarrow> workbook option"

definition read_excel :: "filesystem \<Rightarrow> string \<Rightarrow> string \<Rightarrow> error + frame" where
  "read_excel fs path sheet_name =
     (case fs path of
        None \<Rightarrow> Inl FileNotFoundError
      | Some wb \<Rightarrow> (case wb sheet_name of None \<Rightarrow> Inl ValueError | Some df \<Rightarrow> Inr df))"

definition iloc_cols :: "nat \<Rightarrow> frame \<Rightarrow> frame" where
  "iloc_cols n df = \<lparr>columns = take n (columns df), rows = map (take n) (rows df)\<rparr>"

definition load_data :: "filesystem \<Rightarrow> error + frame" where
  "load_data fs =
     (case read_excel fs ''GJ25NS018 Karan Sen data analytics.xlsx'' ''Sheet1'' of
        Inl e \<Rightarrow> Inl e
      | Inr df \<Rightarrow> Inr (iloc_cols 8 df))"

section \<open>Filter Controller\<close>

text \<open>
  \<^verbatim>\<open>
  filtered_df = df[
      (df["Driver Rating"] >= min_rating) &
      (df["Driver Rating"] <= max_rating) &
      (df["Customer Type"].isin(customer_type)) &
      (df["Payment Method"].isin(payment_method))
  ]
  \<close>
  The four masks are computed column by column, left to right, and combined with the
  elementwise \<^verbatim>\<open>&\<close>; the frame is then indexed by the mask. A comparison with a
  missing value is false; comparing a string or a date with a number raises
  \<^verbatim>\<open>TypeError\<close>. \<^verbatim>\<open>isin\<close> never raises, and a missing value is a member of a
  list that holds a missing value.
\<close>

fun ge :: "cell \<Rightarrow> real \<Rightarrow> error + bool" where
  "ge (Num x) m = Inr (m \<le> x)"
| "ge NaN m = Inr False"
| "ge (Str s) m = Inl TypeError"
| "ge (Date d) m = Inl TypeError"

fun le :: "cell \<Rightarrow> real \<Rightarrow> error + bool" where
  "le (Num x) m = Inr (x \<le> m)"
| "le NaN m = Inr False"
| "le (Str s) m = Inl TypeError"
| "le (Date d) m = Inl TypeError"

definition series_ge :: "cell list \<Rightarrow> real \<Rightarrow> error + bool list" where
  "series_ge s m = sequence_err (map (\<lambda>c. ge c m) s)"

definition series_le :: "cell list \<Rightarrow> real \<Rightarrow> error + bool list" where
  "series_le s m = sequence_err (map (\<lambda>c. le c m) s)"

definition isin :: "cell list \<Rightarrow> cell list \<Rightarrow> bool list" where
  "isin s vals = map (\<lambda>c. c \<in> set vals) s"

definition series_and :: "bool list \<Rightarrow> bool list \<Rightarrow> bool list" where
  "series_and a b = map (\<lambda>(x, y). x \<and> y) (zip a b)"

definition getitem_mask :: "frame \<Rightarrow> bool list \<Rightarrow> frame" where
  "getitem_mask df msk = df\<lparr>rows := map snd (filter fst (zip msk (rows df)))\<rparr>"

definition filtered_df ::
  "frame \<Rightarrow> real \<Rightarrow> real \<Rightarrow> cell list \<Rightarrow> cell list \<Rightarrow> error + frame" where
  "filtered_df df min_rating max_rating customer_type payment_method =
     (case getitem df ''Driver Rating'' of Inl e \<Rightarrow> Inl e | Inr r1 \<Rightarrow>
     (case series_ge r1 min_rating of Inl e \<Rightarrow> Inl e | Inr m1 \<Rightarrow>
     (case getitem df ''Driver Rating'' of Inl e \<Rightarrow> Inl e | Inr r2 \<Rightarrow>
     (case series_le r2 max_rating of Inl e \<Rightarrow> Inl e | Inr m2 \<Rightarrow>
     (case getitem df ''Customer Type'' of Inl e \<Rightarrow> Inl e | Inr ct \<Rightarrow>
     (case getitem df ''Payment Method'' of Inl e \<Rightarrow> Inl e | Inr pm \<Rightarrow>
        Inr (getitem_mask df
              (series_and (series_and (series_and m1 m2) (isin ct customer_type))
                 (isin pm payment_method)))))))))"

text \<open>\<^verbatim>\<open>Series.unique()\<close>: the distinct values in order of first appearance.\<close>

definition unique :: "cell list \<Rightarrow> cell list" where
  "unique s = rev (remdups (rev s))"

section \<open>Aggregations\<close>

text \<open>
  The library the script calls, as far as the script does not determine what it returns:
  the float64 mean of two or more numbers as \<^verbatim>\<open>Series.mean()\<close> and as
  \<^verbatim>\<open>groupby().mean()\<close> compute it (their summations differ and round), the mean of
  timestamps of a datetime column, and whether seaborn raises on the correlation matrix
  of a frame (it raises \<^verbatim>\<open>ValueError\<close> when the frame has no column of a numeric
  dtype; frames here carry no dtypes).
\<close>

record lib =
  series_fmean :: "real list \<Rightarrow> real"
  series_dmean :: "int list \<Rightarrow> int"
  group_fmean :: "real list \<Rightarrow> real"
  group_dmean :: "int list \<Rightarrow> int"
  heatmap_raises :: "frame \<Rightarrow> bool"

fun is_number :: "cell \<Rightarrow> bool" where
  "is_number (Num x) = True"
| "is_number c = False"

fun is_date :: "cell \<Rightarrow> bool" where
  "is_date (Date d) = True"
| "is_date c = False"

fun numbers :: "cell list \<Rightarrow> real list" where
  "numbers [] = []"
| "numbers (Num x # cs) = x # numbers cs"
| "numbers (c # cs) = numbers cs"

fun dates :: "cell list \<Rightarrow> int list" where
  "dates [] = []"
| "dates (Date d # cs) = d # dates cs"
| "dates (c # cs) = dates cs"

text \<open>
  The mean of no number is \<^verbatim>\<open>NaN\<close>, the mean of one number is that number (the sum
  is the number and dividing by one is exact), the mean of more is what the library's
  float64 arithmetic gives.
\<close>

definition float_mean :: "(real list \<Rightarrow> real) \<Rightarrow> real list \<Rightarrow> cell" where
  "float_mean f xs = (case xs of [] \<Rightarrow> NaN | [x] \<Rightarrow> Num x | x # y # zs \<Rightarrow> Num (f xs))"

text \<open>
  \<^verbatim>\<open>Series.mean()\<close> skips missing values (\<^verbatim>\<open>skipna=True\<close>). On numbers it is
  their float64 mean, \<^verbatim>\<open>NaN\<close> when no value is left; on a datetime column it is a
  timestamp; on strings, or on numbers mixed with dates, it raises \<^verbatim>\<open>TypeError\<close>.
\<close>

definition mean :: "lib \<Rightarrow> cell list \<Rightarrow> error + cell" where
  "mean L s =
     (let present = filter (\<lambda>c. c \<noteq> NaN) s
      in if list_all is_number present then Inr (float_mean (series_fmean L) (numbers present))
         else if list_all is_date present then Inr (Date (series_dmean L (dates present)))
         else Inl TypeError)"

text \<open>
  \<^verbatim>\<open>
  avg_rating = filtered_df["Driver Rating"].mean()
  avg_time = filtered_df["Delivery Time(Minutes)"].mean()
  avg_value = filtered_df["Order Value"].mean()
  \<close>
\<close>

definition avg_rating :: "lib \<Rightarrow> frame \<Rightarrow> error + cell" where
  "avg_rating L fdf =
     (case getitem fdf ''Driver Rating'' of Inl e \<Rightarrow> Inl e | Inr s \<Rightarrow> mean L s)"

definition avg_time :: "lib \<Rightarrow> frame \<Rightarrow> error + cell" where
  "avg_time L fdf =
     (case getitem fdf ''Delivery Time(Minutes)'' of Inl e \<Rightarrow> Inl e | Inr s \<Rightarrow> mean L s)"

definition avg_value :: "lib \<Rightarrow> frame \<Rightarrow> error + cell" where
  "avg_value L fdf =
     (case getitem fdf ''Order Value'' of Inl e \<Rightarrow> Inl e | Inr s \<Rightarrow> mean L s)"

section \<open>Vocabulary of the properties\<close>

text \<open>
  A cell is numeric when a comparison with a number does not raise; a row passes the
  filter when its rating lies in the closed range and its two categorical cells are
  members of the selections. \<open>filterable\<close> says that the three columns the filter reads
  exist and that the rating column is numeric; \<open>default_filtered_df\<close> is the filter with
  the sidebar's default inputs (the slider's \<^verbatim>\<open>(1.0, 5.0)\<close> and, for both
  selections, \<^verbatim>\<open>df[...].unique()\<close>).
\<close>

definition is_numeric :: "cell \<Rightarrow> bool" where
  "is_numeric c = (case c of Num x \<Rightarrow> True | NaN \<Rightarrow> True | _ \<Rightarrow> False)"

definition in_range :: "real \<Rightarrow> real \<Rightarrow> cell \<Rightarrow> bool" where
  "in_range lo hi c = (case c of Num x \<Rightarrow> lo \<le> x \<and> x \<le> hi | _ \<Rightarrow> False)"

definition row_passes :: "nat \<Rightarrow> nat \<Rightarrow> nat \<Rightarrow> real \<Rightarrow> real \<Rightarrow> cell list \<Rightarrow> cell list \<Rightarrow> cell list \<Rightarrow> bool" where
  "row_passes i j k lo hi cts pms r =
     (in_range lo hi (cell_at i r) \<and> cell_at j r \<in> set cts \<and> cell_at k r \<in> set pms)"

definition filterable :: "frame \<Rightarrow> bool" where
  "filterable df =
     (case col_index ''Driver Rating'' (columns df) of
        None \<Rightarrow> False
      | Some i \<Rightarrow>
          list_all (\<lambda>r. is_numeric (cell_at i r)) (rows df) \<and>
          col_index ''Customer Type'' (columns df) \<noteq> None \<and>
          col_index ''Payment Method'' (columns df) \<noteq> None)"

definition default_filtered_df :: "frame \<Rightarrow> error + frame" where
  "default_filtered_df df =
     (case getitem df ''Customer Type'' of Inl e \<Rightarrow> Inl e | Inr ct \<Rightarrow>
     (case getitem df ''Payment Method'' of Inl e \<Rightarrow> Inl e | Inr pm \<Rightarrow>
        filtered_df df 1 5 (unique ct) (unique pm)))"

definition example_df :: frame where
  "example_df =
     \<lparr>columns = [''Driver Rating'', ''Customer Type'', ''Payment Method'', ''Order Value''],
      rows = [[Num 4, Str ''New'', Str ''Cash'', Num 50],
              [Num 2, Str ''Repeat'', Str ''Card'', Num 80]]\<rparr>"

text \<open>
  Concrete inputs for the loader: a file system holding the one workbook, with the sheet
  \<^verbatim>\<open>Sheet1\<close> given; a sheet of three columns and one of nine.
\<close>

definition single_sheet_fs :: "frame \<Rightarrow> filesystem" where
  "single_sheet_fs sh =
     (\<lambda>p. if p = ''GJ25NS018 Karan Sen data analytics.xlsx''
          then Some (\<lambda>s. if s = ''Sheet1'' then Some sh else None)
          else None)"

definition short_sheet :: frame where
  "short_sheet =
     \<lparr>columns = [''Driver Rating'', ''Order Value'', ''Date''],
      rows = [[Num 4, Num 50, Date 19000]]\<rparr>"

definition wide_sheet :: frame where
  "wide_sheet =
     \<lparr>columns = [''Order ID'', ''Date'', ''Customer Type'', ''Payment Method'',
                 ''Order Value'', ''Delivery Time(Minutes)'', ''Delivery Distance (KM)'',
                 ''Driver Rating'', ''Notes''],
      rows = [[Num 1, Date 19000, Str ''New'', Str ''Cash'', Num 50, Num 30, Num 4,
               Num 4, Str ''left at door'']]\<rparr>"

definition empty_fs :: filesystem where
  "empty_fs = (\<lambda>p. None)"



definition exact_lib :: lib where
  "exact_lib =
     \<lparr>series_fmean = (\<lambda>xs. sum_list xs / real (length xs)),
      series_dmean = (\<lambda>ds. sum_list ds div int (length ds)),
      group_fmean = (\<lambda>xs. sum_list xs / real (length xs)),
      group_dmean = (\<lambda>ds. sum_list ds div int (length ds)),
      heatmap_raises = (\<lambda>df. columns df = [] \<or> rows df = [])\<rparr>"

section \<open>Grouped aggregations\<close>

text \<open>
  \<^verbatim>\<open>groupby\<close> sorts the group keys (\<^verbatim>\<open>sort=True\<close> is its default) and drops
  missing keys (\<^verbatim>\<open>dropna=True\<close>). Keys of one kind are ordered as pandas orders
  them: numbers by value, strings lexicographically, dates chronologically. A column
  holds cells of one kind; between kinds the order below (missing, numbers, strings,
  dates) is a convention of the model.
\<close>

fun cell_rank :: "cell \<Rightarrow> nat" where
  "cell_rank NaN = 0"
| "cell_rank (Num x) = 1"
| "cell_rank (Str s) = 2"
| "cell_rank (Date d) = 3"

instantiation cell :: linorder
begin

fun less_eq_cell :: "cell \<Rightarrow> cell \<Rightarrow> bool" where
  "less_eq_cell (Num x) (Num y) = (x \<le> y)"
| "less_eq_cell (Str s) (Str t) = (s \<le> t)"
| "less_eq_cell (Date d) (Date e) = (d \<le> e)"
| "less_eq_cell a b = (cell_rank a \<le> cell_rank b)"

definition less_cell :: "cell \<Rightarrow> cell \<Rightarrow> bool" where
  "less_cell a b = (a \<le> b \<and> \<not> b \<le> a)"

instance
proof
  fix x y z :: cell
  show "(x < y) = (x \<le> y \<and> \<not> y \<le> x)" by (simp add: less_cell_def)
  show "x \<le> x" by (cases x) auto
  show "x \<le> y \<Longrightarrow> y \<le> z \<Longrightarrow> x \<le> z"
    by (cases x; cases y; cases z) auto
  show "x \<le> y \<Longrightarrow> y \<le> x \<Longrightarrow> x = y"
    by (cases x; cases y) auto
  show "x \<le> y \<or> y \<le> x"
    by (cases x; cases y) auto
qed

end

text \<open>
  \<^verbatim>\<open>
  df_daily = filtered_df.groupby("Date")["Driver Rating"].mean().reset_index()
  df_time = filtered_df.groupby("Date")["Delivery Time(Minutes)"].mean().reset_index()
  \<close>
  One output row for each key, holding the key and the mean of the value column over the
  rows of that key; \<^verbatim>\<open>reset_index\<close> makes the key a column. The mean of a group
  skips missing values. On a datetime column (all its values dates) it is a timestamp;
  otherwise it is the float64 mean of the group's numbers, and a group holding a string
  or a date raises \<^verbatim>\<open>TypeError\<close>.
\<close>

definition group_keys :: "cell list \<Rightarrow> cell list" where
  "group_keys ks = sort (remdups (filter (\<lambda>k. k \<noteq> NaN) ks))"

definition group_values :: "cell list \<Rightarrow> cell list \<Rightarrow> cell \<Rightarrow> cell list" where
  "group_values ks vs k = map snd (filter (\<lambda>(k', v). k' = k) (zip ks vs))"

definition is_datetime64 :: "cell list \<Rightarrow> bool" where
  "is_datetime64 vs =
     (let present = filter (\<lambda>c. c \<noteq> NaN) vs in present \<noteq> [] \<and> list_all is_date present)"

definition group_mean :: "lib \<Rightarrow> bool \<Rightarrow> cell list \<Rightarrow> error + cell" where
  "group_mean L datetime s =
     (let present = filter (\<lambda>c. c \<noteq> NaN) s
      in if datetime
         then Inr (if present = [] then NaN else Date (group_dmean L (dates present)))
         else if list_all is_number present
              then Inr (float_mean (group_fmean L) (numbers present))
              else Inl TypeError)"

definition groupby_mean :: "lib \<Rightarrow> frame \<Rightarrow> string \<Rightarrow> string \<Rightarrow> error + frame" where
  "groupby_mean L fdf by col =
     (case getitem fdf by of Inl e \<Rightarrow> Inl e | Inr ks \<Rightarrow>
     (case getitem fdf col of Inl e \<Rightarrow> Inl e | Inr vs \<Rightarrow>
     (case sequence_err
             (map (\<lambda>k. group_mean L (is_datetime64 vs) (group_values ks vs k)) (group_keys ks)) of
        Inl e \<Rightarrow> Inl e
      | Inr ms \<Rightarrow>
          Inr \<lparr>columns = [by, col],
               rows = map (\<lambda>(k, m). [k, m]) (zip (group_keys ks) ms)\<rparr>)))"

definition df_daily :: "lib \<Rightarrow> frame \<Rightarrow> error + frame" where
  "df_daily L fdf = groupby_mean L fdf ''Date'' ''Driver Rating''"

definition df_time :: "lib \<Rightarrow> frame \<Rightarrow> error + frame" where
  "df_time L fdf = groupby_mean L fdf ''Date'' ''Delivery Time(Minutes)''"

text \<open>
  A base table of eight columns whose dates are not in ascending order, with a missing
  date, a missing order value and a missing delivery time; the filter with the default
  inputs keeps all of its rows.
\<close>

definition trend_df :: frame where
  "trend_df =
     \<lparr>columns = [''Order ID'', ''Date'', ''Customer Type'', ''Payment Method'',
                 ''Order Value'', ''Delivery Time(Minutes)'', ''Delivery Distance (KM)'',
                 ''Driver Rating''],
      rows = [[Num 1, Date 2, Str ''New'', Str ''Cash'', Num 50, Num 30, Num 4, Num 5],
              [Num 2, Date 1, Str ''Repeat'', Str ''Card'', NaN, Num 20, Num 6, Num 3],
              [Num 3, Date 2, Str ''New'', Str ''Card'', Num 70, NaN, Num 2, Num 4],
              [Num 4, NaN, Str ''New'', Str ''Cash'', Num 60, Num 10, Num 8, Num 1]]\<rparr>"

section \<open>Panel Renderer\<close>

text \<open>
  The panels are the statements of lines 36 to 137 of the script. They run on the
  script's variables and objects: a variable names an object, objects live in a heap
  (an object's address is its index), and the \<^verbatim>\<open>st.*\<close> calls put artifacts on the
  page. An assignment binds its variable to a new object. A chart is recorded as the
  call that builds it: its kind, the content of the frame it is given and the columns
  named for its axes and colour; what plotly, seaborn, \<^verbatim>\<open>describe()\<close> and
  \<^verbatim>\<open>corr()\<close> compute from that content is not modelled, and styling arguments are
  left out. These calls read the frame they are given and build a new object; the one
  call that changes an existing object is \<^verbatim>\<open>sns.heatmap\<close>, which draws on the axes
  it is given. Plotly express raises \<^verbatim>\<open>ValueError\<close> for a column the frame does not
  have; reading an unbound variable raises \<^verbatim>\<open>NameError\<close>. The \<^verbatim>\<open>with tab:\<close> blocks
  only place the output.
\<close>

datatype kind = Histogram | Box | Scatter | Line

datatype matrix = Corr frame

datatype figure = Px kind frame "string list" | Blank | Heatmap matrix

datatype pyval =
    VFrame frame
  | VFig figure
  | VAxes nat
  | VCell cell
  | VMatrix matrix
  | VColumn nat

datatype artifact =
    Subheader string
  | Markdown string
  | PlotlyChart figure
  | Pyplot figure
  | Dataframe frame
  | DataframeDescribe frame
  | Columns nat
  | Metric nat string cell

record session =
  vars :: "string \<Rightarrow> nat option"
  heap :: "pyval list"
  page :: "artifact list"

type_synonym stmt = "session \<Rightarrow> error + session"

fun run :: "stmt list \<Rightarrow> stmt" where
  "run [] s = Inr s"
| "run (p # ps) s = (case p s of Inl e \<Rightarrow> Inl e | Inr s' \<Rightarrow> run ps s')"

text \<open>Reading a variable gives the object it names; binding one allocates the object.\<close>

definition deref :: "string \<Rightarrow> session \<Rightarrow> error + pyval" where
  "deref x s =
     (case vars s x of
        None \<Rightarrow> Inl (NameError x)
      | Some r \<Rightarrow> if r < length (heap s) then Inr (heap s ! r) else Inl (NameError x))"

definition new :: "string \<Rightarrow> pyval \<Rightarrow> session \<Rightarrow> session" where
  "new x v s = s\<lparr>vars := (vars s)(x \<mapsto> length (heap s)), heap := heap s @ [v]\<rparr>"

definition assign :: "string \<Rightarrow> (session \<Rightarrow> error + pyval) \<Rightarrow> stmt" where
  "assign x e s = (case e s of Inl err \<Rightarrow> Inl err | Inr v \<Rightarrow> Inr (new x v s))"

definition st_show :: "(session \<Rightarrow> error + artifact) \<Rightarrow> stmt" where
  "st_show e s = (case e s of Inl err \<Rightarrow> Inl err | Inr a \<Rightarrow> Inr (s\<lparr>page := page s @ [a]\<rparr>))"

definition subheader :: "string \<Rightarrow> stmt" where
  "subheader t = st_show (\<lambda>s. Inr (Subheader t))"

definition markdown :: "string \<Rightarrow> stmt" where
  "markdown t = st_show (\<lambda>s. Inr (Markdown t))"

definition read_frame :: "string \<Rightarrow> session \<Rightarrow> error + frame" where
  "read_frame x s =
     (case deref x s of
        Inl e \<Rightarrow> Inl e
      | Inr (VFrame df) \<Rightarrow> Inr df
      | Inr v \<Rightarrow> Inl TypeError)"

definition px :: "kind \<Rightarrow> string \<Rightarrow> string list \<Rightarrow> session \<Rightarrow> error + pyval" where
  "px k x cols s =
     (case read_frame x s of
        Inl e \<Rightarrow> Inl e
      | Inr df \<Rightarrow> if set cols \<subseteq> set (columns df) then Inr (VFig (Px k df cols)) else Inl ValueError)"

definition plotly_chart :: "string \<Rightarrow> stmt" where
  "plotly_chart x =
     st_show (\<lambda>s. case deref x s of
                    Inl e \<Rightarrow> Inl e
                  | Inr (VFig f) \<Rightarrow> Inr (PlotlyChart f)
                  | Inr v \<Rightarrow> Inl TypeError)"

text \<open>
  \<^verbatim>\<open>corr = filtered_df.select_dtypes(include='number').corr()\<close>, then
  \<^verbatim>\<open>fig8, ax = plt.subplots()\<close>, \<^verbatim>\<open>sns.heatmap(corr, ..., ax=ax)\<close> and
  \<^verbatim>\<open>st.pyplot(fig8)\<close>. \<^verbatim>\<open>subplots\<close> makes a figure and its axes, the axes holding
  the address of the figure; \<^verbatim>\<open>heatmap\<close> draws on the axes, which changes the figure
  they belong to.
\<close>

definition corr_numeric :: "session \<Rightarrow> error + pyval" where
  "corr_numeric s =
     (case read_frame ''filtered_df'' s of Inl e \<Rightarrow> Inl e | Inr df \<Rightarrow> Inr (VMatrix (Corr df)))"

definition plt_subplots :: "string \<Rightarrow> string \<Rightarrow> stmt" where
  "plt_subplots f a s = Inr (new a (VAxes (length (heap s))) (new f (VFig Blank) s))"

definition sns_heatmap :: "lib \<Rightarrow> string \<Rightarrow> string \<Rightarrow> stmt" where
  "sns_heatmap L c a s =
     (case deref c s of
        Inl e \<Rightarrow> Inl e
      | Inr (VMatrix (Corr df)) \<Rightarrow>
          (case deref a s of
             Inl e \<Rightarrow> Inl e
           | Inr (VAxes r) \<Rightarrow>
               if heatmap_raises L df then Inl ValueError
               else Inr (s\<lparr>heap := (heap s)[r := VFig (Heatmap (Corr df))]\<rparr>)
           | Inr v \<Rightarrow> Inl TypeError)
      | Inr v \<Rightarrow> Inl TypeError)"

definition pyplot :: "string \<Rightarrow> stmt" where
  "pyplot x =
     st_show (\<lambda>s. case deref x s of
                    Inl e \<Rightarrow> Inl e
                  | Inr (VFig f) \<Rightarrow> Inr (Pyplot f)
                  | Inr v \<Rightarrow> Inl TypeError)"

text \<open>An aggregation of the filtered view, bound to a variable.\<close>

definition on_filtered :: "(frame \<Rightarrow> error + frame) \<Rightarrow> session \<Rightarrow> error + pyval" where
  "on_filtered f s =
     (case read_frame ''filtered_df'' s of
        Inl e \<Rightarrow> Inl e
      | Inr df \<Rightarrow> (case f df of Inl e \<Rightarrow> Inl e | Inr g \<Rightarrow> Inr (VFrame g)))"

definition kpi :: "(frame \<Rightarrow> error + cell) \<Rightarrow> session \<Rightarrow> error + pyval" where
  "kpi f s =
     (case read_frame ''filtered_df'' s of
        Inl e \<Rightarrow> Inl e
      | Inr df \<Rightarrow> (case f df of Inl e \<Rightarrow> Inl e | Inr c \<Rightarrow> Inr (VCell c)))"

text \<open>
  \<^verbatim>\<open>st.dataframe(filtered_df.describe())\<close>, \<^verbatim>\<open>st.dataframe(filtered_df)\<close>,
  \<^verbatim>\<open>col1, col2, col3 = st.columns(3)\<close> and \<^verbatim>\<open>col.metric(label, f"{avg:.2f}")\<close>;
  the metric is recorded with its column and the value it formats.
  \<^verbatim>\<open>describe()\<close> raises \<^verbatim>\<open>ValueError\<close> on a frame without columns.
\<close>

definition dataframe_describe :: "string \<Rightarrow> stmt" where
  "dataframe_describe x =
     st_show (\<lambda>s. case read_frame x s of
                    Inl e \<Rightarrow> Inl e
                  | Inr df \<Rightarrow> if columns df = [] then Inl ValueError else Inr (DataframeDescribe df))"

definition dataframe :: "string \<Rightarrow> stmt" where
  "dataframe x =
     st_show (\<lambda>s. case read_frame x s of Inl e \<Rightarrow> Inl e | Inr df \<Rightarrow> Inr (Dataframe df))"

definition st_columns :: "string \<Rightarrow> string \<Rightarrow> string \<Rightarrow> stmt" where
  "st_columns a b c =
     run [st_show (\<lambda>s. Inr (Columns 3)),
          assign a (\<lambda>s. Inr (VColumn 0)),
          assign b (\<lambda>s. Inr (VColumn 1)),
          assign c (\<lambda>s. Inr (VColumn 2))]"

definition metric :: "string \<Rightarrow> string \<Rightarrow> string \<Rightarrow> stmt" where
  "metric col label x =
     st_show (\<lambda>s. case deref col s of
                    Inl e \<Rightarrow> Inl e
                  | Inr (VColumn i) \<Rightarrow>
                      (case deref x s of
                         Inl e \<Rightarrow> Inl e
                       | Inr (VCell c) \<Rightarrow> Inr (Metric i label c)
                       | Inr v \<Rightarrow> Inl TypeError)
                  | Inr v \<Rightarrow> Inl TypeError)"

text \<open>The twenty panels, statement by statement, in the order of the script.\<close>

definition panel1 :: stmt where
  "panel1 =
     run
      [subheader ''1. Overall Driver Rating Distribution'',
       markdown ''Shows the count of deliveries by driver ratings.'',
       assign ''fig1'' (px Histogram ''filtered_df'' [''Driver Rating'']),
       plotly_chart ''fig1'']"

definition panel2 :: stmt where
  "panel2 =
     run
      [subheader ''2. Average Order Value by Driver Rating'',
       markdown ''Analyzes whether higher-rated drivers get more valuable orders.'',
       assign ''fig2'' (px Box ''filtered_df'' [''Driver Rating'', ''Order Value'', ''Driver Rating'']),
       plotly_chart ''fig2'']"

definition panel3 :: stmt where
  "panel3 =
     run
      [subheader ''3. Average Delivery Time by Driver Rating'',
       markdown ''Checks if better-rated drivers deliver faster.'',
       assign ''fig3'' (px Box ''filtered_df'' [''Driver Rating'', ''Delivery Time(Minutes)'', ''Driver Rating'']),
       plotly_chart ''fig3'']"

definition panel4 :: stmt where
  "panel4 =
     run
      [subheader ''4. Order Value by Customer Type'',
       assign ''fig4'' (px Box ''filtered_df'' [''Customer Type'', ''Order Value'', ''Customer Type'']),
       markdown ''Compares order value patterns between new and repeat customers.'',
       plotly_chart ''fig4'']"

definition panel5 :: stmt where
  "panel5 =
     run
      [subheader ''5. Payment Method Distribution'',
       assign ''fig5'' (px Histogram ''filtered_df'' [''Payment Method'', ''Payment Method'']),
       markdown ''Shows preferred payment modes.'',
       plotly_chart ''fig5'']"

definition panel6 :: stmt where
  "panel6 =
     run
      [subheader ''6. Driver Rating by Customer Type'',
       assign ''fig6'' (px Box ''filtered_df'' [''Customer Type'', ''Driver Rating'', ''Customer Type'']),
       markdown ''Do new customers rate differently than repeat ones?'',
       plotly_chart ''fig6'']"

definition panel7 :: stmt where
  "panel7 =
     run
      [subheader ''7. Delivery Time by Payment Method'',
       assign ''fig7'' (px Box ''filtered_df'' [''Payment Method'', ''Delivery Time(Minutes)'', ''Payment Method'']),
       plotly_chart ''fig7'']"

definition panel8 :: "lib \<Rightarrow> stmt" where
  "panel8 L =
     run
      [subheader ''8. Correlation Heatmap'',
       markdown ''Shows correlations between numeric variables.'',
       assign ''corr'' corr_numeric,
       plt_subplots ''fig8'' ''ax'',
       sns_heatmap L ''corr'' ''ax'',
       pyplot ''fig8'']"

definition panel9 :: stmt where
  "panel9 =
     run
      [subheader ''9. Driver Rating vs Delivery Time'',
       assign ''fig9'' (px Scatter ''filtered_df'' [''Driver Rating'', ''Delivery Time(Minutes)'', ''Driver Rating'']),
       markdown ''Check relationship between rating and delivery time.'',
       plotly_chart ''fig9'']"

definition panel10 :: stmt where
  "panel10 =
     run
      [subheader ''10. Driver Rating vs Distance'',
       assign ''fig10'' (px Scatter ''filtered_df'' [''Driver Rating'', ''Delivery Distance (KM)'', ''Driver Rating'']),
       plotly_chart ''fig10'']"

definition panel11 :: stmt where
  "panel11 =
     run
      [subheader ''11. Driver Rating vs Order Value'',
       assign ''fig11'' (px Scatter ''filtered_df'' [''Driver Rating'', ''Order Value'', ''Driver Rating'']),
       plotly_chart ''fig11'']"

definition panel12 :: stmt where
  "panel12 =
     run
      [subheader ''12. Orders Over Time'',
       assign ''fig12'' (px Histogram ''filtered_df'' [''Date'', ''Driver Rating'']),
       markdown ''Tracks order volume and driver ratings over time.'',
       plotly_chart ''fig12'']"

definition panel13 :: "lib \<Rightarrow> stmt" where
  "panel13 L =
     run
      [subheader ''13. Average Rating by Date'',
       markdown ''Shows how ratings trend over time.'',
       assign ''df_daily'' (on_filtered (df_daily L)),
       assign ''fig13'' (px Line ''df_daily'' [''Date'', ''Driver Rating'']),
       plotly_chart ''fig13'']"

definition panel14 :: "lib \<Rightarrow> stmt" where
  "panel14 L =
     run
      [subheader ''14. Average Delivery Time by Date'',
       assign ''df_time'' (on_filtered (df_time L)),
       assign ''fig14'' (px Line ''df_time'' [''Date'', ''Delivery Time(Minutes)'']),
       plotly_chart ''fig14'']"

definition panel15 :: stmt where
  "panel15 =
     run
      [subheader ''15. Outlier Detection: Order Value'',
       assign ''fig15'' (px Box ''filtered_df'' [''Order Value'']),
       plotly_chart ''fig15'']"

definition panel16 :: stmt where
  "panel16 =
     run
      [subheader ''16. Outlier Detection: Delivery Time'',
       assign ''fig16'' (px Box ''filtered_df'' [''Delivery Time(Minutes)'']),
       plotly_chart ''fig16'']"

definition panel17 :: stmt where
  "panel17 =
     run
      [subheader ''17. Summary Table'',
       dataframe_describe ''filtered_df'']"

definition panel18 :: stmt where
  "panel18 =
     run
      [subheader ''18. Raw Data Table'',
       dataframe ''filtered_df'']"

definition panel19 :: "lib \<Rightarrow> stmt" where
  "panel19 L =
     run
      [subheader ''19. KPI Summary'',
       assign ''avg_rating'' (kpi (avg_rating L)),
       assign ''avg_time'' (kpi (avg_time L)),
       assign ''avg_value'' (kpi (avg_value L)),
       st_columns ''col1'' ''col2'' ''col3'',
       metric ''col1'' ''Avg. Driver Rating'' ''avg_rating'',
       metric ''col2'' ''Avg. Delivery Time (min)'' ''avg_time'',
       metric ''col3'' ''Avg. Order Value (AED)'' ''avg_value'']"

definition panel20 :: stmt where
  "panel20 =
     run
      [subheader ''20. Delivery Distance Boxplot'',
       assign ''fig20'' (px Box ''filtered_df'' [''Delivery Distance (KM)'']),
       plotly_chart ''fig20'']"

definition panels :: "lib \<Rightarrow> stmt list" where
  "panels L =
     [panel1, panel2, panel3, panel4, panel5, panel6, panel7, panel8 L, panel9, panel10,
      panel11, panel12, panel13 L, panel14 L, panel15, panel16, panel17, panel18, panel19 L, panel20]"

definition render :: "lib \<Rightarrow> stmt" where
  "render L = run (panels L)"

text \<open>The variables each panel assigns.\<close>

definition panel_writes :: "string list list" where
  "panel_writes =
     [[''fig1''],
      [''fig2''],
      [''fig3''],
      [''fig4''],
      [''fig5''],
      [''fig6''],
      [''fig7''],
      [''corr'', ''fig8'', ''ax''],
      [''fig9''],
      [''fig10''],
      [''fig11''],
      [''fig12''],
      [''df_daily'', ''fig13''],
      [''df_time'', ''fig14''],
      [''fig15''],
      [''fig16''],
      [],
      [],
      [''avg_rating'', ''avg_time'', ''avg_value'', ''col1'', ''col2'', ''col3''],
      [''fig20'']]"

text \<open>
  The filtered view of a session is the object the variable \<^verbatim>\<open>filtered_df\<close> names.
  A panel is pure for a list of variables when, whenever it returns, the filtered view is
  what it was, every object that existed before is what it was, no variable outside the
  list has changed, and what was on the page is still there; and run from any other
  session with the same filtered view, it returns as well and adds the same artifacts
  to the page.
\<close>

definition view :: "session \<Rightarrow> pyval option" where
  "view s =
     (case vars s ''filtered_df'' of
        None \<Rightarrow> None
      | Some r \<Rightarrow> if r < length (heap s) then Some (heap s ! r) else None)"

definition pure_panel :: "stmt \<Rightarrow> string list \<Rightarrow> bool" where
  "pure_panel p ws =
     (\<forall>s t. p s = Inr t \<longrightarrow>
        view t = view s \<and>
        vars t ''filtered_df'' = vars s ''filtered_df'' \<and>
        (\<forall>x. x \<notin> set ws \<longrightarrow> vars t x = vars s x) \<and>
        take (length (heap s)) (heap t) = heap s \<and>
        take (length (page s)) (page t) = page s \<and>
        (\<forall>s'. view s' = view s \<longrightarrow>
           (\<exists>t'. p s' = Inr t' \<and>
                 page t' = page s' @ drop (length (page s)) (page t))))"

definition initial_session :: "frame \<Rightarrow> session" where
  "initial_session fdf = \<lparr>vars = [''filtered_df'' \<mapsto> 0], heap = [VFrame fdf], page = []\<rparr>"

text \<open>A statement that overwrites the object of the filtered view, for comparison.\<close>

definition overwrite_view :: stmt where
  "overwrite_view s =
     (case vars s ''filtered_df'' of
        None \<Rightarrow> Inl (NameError ''filtered_df'')
      | Some r \<Rightarrow> Inr (s\<lparr>heap := (heap s)[r := VFrame \<lparr>columns = [], rows = []\<rparr>]\<rparr>))"

section \<open>Helper lemmas\<close>

lemma series_ge_eq:
  "series_ge s m = (if list_all is_numeric s then Inr (map (\<lambda>c. case c of Num x \<Rightarrow> m \<le> x | _ \<Rightarrow> False) s) else Inl TypeError)"
  unfolding series_ge_def
  by (induction s) (auto simp: is_numeric_def split: cell.splits sum.splits)

lemma series_le_eq:
  "series_le s m = (if list_all is_numeric s then Inr (map (\<lambda>c. case c of Num x \<Rightarrow> x \<le> m | _ \<Rightarrow> False) s) else Inl TypeError)"
  unfolding series_le_def
  by (induction s) (auto simp: is_numeric_def split: cell.splits sum.splits)

lemma mask_select: "map snd (filter fst (zip (map P xs) xs)) = filter P xs"
  by (induction xs) auto

lemma filtered_df_eq:
  "filtered_df df lo hi cts pms =
    (case col_index ''Driver Rating'' (columns df) of None \<Rightarrow> Inl (KeyError ''Driver Rating'')
     | Some i \<Rightarrow>
       if \<not> list_all (\<lambda>r. is_numeric (cell_at i r)) (rows df) then Inl TypeError
       else (case col_index ''Customer Type'' (columns df) of None \<Rightarrow> Inl (KeyError ''Customer Type'')
     | Some j \<Rightarrow>
       (case col_index ''Payment Method'' (columns df) of None \<Rightarrow> Inl (KeyError ''Payment Method'')
     | Some k \<Rightarrow> Inr (df\<lparr>rows := filter (row_passes i j k lo hi cts pms) (rows df)\<rparr>))))"
proof -
  have m: "series_and (series_and (series_and
            (map (\<lambda>c. case c of Num x \<Rightarrow> lo \<le> x | _ \<Rightarrow> False) (map (cell_at i) rs))
            (map (\<lambda>c. case c of Num x \<Rightarrow> x \<le> hi | _ \<Rightarrow> False) (map (cell_at i) rs)))
            (isin (map (cell_at j) rs) cts)) (isin (map (cell_at k) rs) pms)
          = map (row_passes i j k lo hi cts pms) rs" for i j k rs
    unfolding isin_def series_and_def row_passes_def in_range_def
    by (induction rs) (auto split: cell.splits)
  show ?thesis
    unfolding filtered_df_def getitem_def
    by (simp add: series_ge_eq series_le_eq m getitem_mask_def mask_select list_all_iff
          del: map_map split: option.splits)
qed


lemma filtered_df_Inr_iff:
  "filtered_df df lo hi cts pms = Inr v \<longleftrightarrow>
     (\<exists>i j k. col_index ''Driver Rating'' (columns df) = Some i \<and>
        col_index ''Customer Type'' (columns df) = Some j \<and>
        col_index ''Payment Method'' (columns df) = Some k \<and>
        list_all (\<lambda>r. is_numeric (cell_at i r)) (rows df) \<and>
        v = df\<lparr>rows := filter (row_passes i j k lo hi cts pms) (rows df)\<rparr>)"
  unfolding filtered_df_eq by (auto split: option.splits)

lemma filterable_iff: "filterable df \<longleftrightarrow> (\<exists>v. filtered_df df lo hi cts pms = Inr v)"
  unfolding filtered_df_Inr_iff filterable_def by (auto split: option.splits)

lemma in_range_iff: "in_range lo hi c \<longleftrightarrow> (\<exists>x. c = Num x \<and> lo \<le> x \<and> x \<le> hi)"
  unfolding in_range_def by (cases c) auto

lemma set_unique: "set (unique s) = set s"
  by (simp add: unique_def)

lemma load_data_single: "load_data (single_sheet_fs sh) = Inr (iloc_cols 8 sh)"
  by (simp add: load_data_def read_excel_def single_sheet_fs_def)


lemma dates_present: "dates (filter (\<lambda>c. c \<noteq> NaN) s) = dates s"
  by (induction s rule: dates.induct) auto












lemma sequence_err_map_Inr:
  "sequence_err (map f xs) = Inr ys \<longleftrightarrow> list_all2 (\<lambda>x y. f x = Inr y) xs ys"
proof (induction xs arbitrary: ys)
  case Nil
  then show ?case by auto
next
  case (Cons x xs)
  show ?case
  proof (cases "f x")
    case (Inl e)
    then show ?thesis by (auto simp: list_all2_Cons1)
  next
    case fx: (Inr v)
    show ?thesis
    proof (cases "sequence_err (map f xs)")
      case (Inl e)
      with fx Cons.IH show ?thesis by (auto simp: list_all2_Cons1)
    next
      case (Inr vs)
      with fx Cons.IH show ?thesis by (auto simp: list_all2_Cons1)
    qed
  qed
qed

lemma group_values_rows:
  "group_values (map (cell_at i) rs) (map (cell_at j) rs) k
     = map (cell_at j) (filter (\<lambda>r. cell_at i r = k) rs)"
  unfolding group_values_def by (induction rs) auto

lemma group_keys_distinct: "distinct (group_keys ks)"
  by (simp add: group_keys_def)

lemma group_keys_sorted: "sorted (group_keys ks)"
  by (simp add: group_keys_def)


lemma key_column:
  "length ms = length keys \<Longrightarrow>
   map (cell_at 0) (map (\<lambda>(k, m). [k, m]) (zip keys ms)) = keys"
  by (induction keys ms rule: list_induct2') (auto simp: cell_at_def)




lemma groupby_mean_Inr:
  assumes "groupby_mean L fdf by col = Inr g"
  shows "\<exists>i j ms. col_index by (columns fdf) = Some i \<and> col_index col (columns fdf) = Some j \<and>
           list_all2 (\<lambda>k m. group_mean L (is_datetime64 (map (cell_at j) (rows fdf)))
                              (map (cell_at j) (filter (\<lambda>r. cell_at i r = k) (rows fdf))) = Inr m)
             (group_keys (map (cell_at i) (rows fdf))) ms \<and>
           g = \<lparr>columns = [by, col],
                rows = map (\<lambda>(k, m). [k, m]) (zip (group_keys (map (cell_at i) (rows fdf))) ms)\<rparr>"
  using assms unfolding groupby_mean_def getitem_def
  by (auto simp: sequence_err_map_Inr group_values_rows split: option.splits sum.splits)


lemma groupby_mean_rows:
  assumes "groupby_mean L fdf by col = Inr g"
  shows "\<exists>i j. col_index by (columns fdf) = Some i \<and> col_index col (columns fdf) = Some j \<and>
           columns g = [by, col] \<and>
           map (cell_at 0) (rows g) = group_keys (map (cell_at i) (rows fdf)) \<and>
           (\<forall>r \<in> set (rows g). \<exists>k v.
              r = [k, v] \<and>
              group_mean L (is_datetime64 (map (cell_at j) (rows fdf)))
                (map (cell_at j) (filter (\<lambda>r'. cell_at i r' = k) (rows fdf))) = Inr v)"
proof -
  from groupby_mean_Inr [OF assms] obtain i j ms where
    c: "col_index by (columns fdf) = Some i" "col_index col (columns fdf) = Some j"
    and l: "list_all2 (\<lambda>k m. group_mean L (is_datetime64 (map (cell_at j) (rows fdf)))
                              (map (cell_at j) (filter (\<lambda>r. cell_at i r = k) (rows fdf))) = Inr m)
             (group_keys (map (cell_at i) (rows fdf))) ms"
    and g: "g = \<lparr>columns = [by, col],
                rows = map (\<lambda>(k, m). [k, m]) (zip (group_keys (map (cell_at i) (rows fdf))) ms)\<rparr>"
    by blast
  from l have len: "length ms = length (group_keys (map (cell_at i) (rows fdf)))"
    by (simp add: list_all2_lengthD)
  have k: "map (cell_at 0) (rows g) = group_keys (map (cell_at i) (rows fdf))"
    using key_column [OF len] by (simp add: g)
  have "\<exists>k v. r = [k, v] \<and>
              group_mean L (is_datetime64 (map (cell_at j) (rows fdf)))
                (map (cell_at j) (filter (\<lambda>r'. cell_at i r' = k) (rows fdf))) = Inr v"
    if "r \<in> set (rows g)" for r
  proof -
    from that obtain k m where
      km: "(k, m) \<in> set (zip (group_keys (map (cell_at i) (rows fdf))) ms)" "r = [k, m]"
      by (auto simp: g)
    from l km(1) have "group_mean L (is_datetime64 (map (cell_at j) (rows fdf)))
        (map (cell_at j) (filter (\<lambda>r. cell_at i r = k) (rows fdf))) = Inr m"
      by (auto simp: list_all2_iff)
    with km(2) show ?thesis by blast
  qed
  with c k show ?thesis by (auto simp: g)
qed


lemma df_daily_trend:
  "df_daily exact_lib trend_df
     = Inr \<lparr>columns = [''Date'', ''Driver Rating''],
            rows = [[Date 1, Num 3], [Date 2, Num (9 / 2)]]\<rparr>"
  by (simp add: df_daily_def groupby_mean_def getitem_def group_keys_def group_values_def
        group_mean_def is_datetime64_def float_mean_def exact_lib_def cell_at_def trend_df_def)


section \<open>Helper lemmas: the panels\<close>

lemmas stmt_defs =
  deref_def new_def assign_def st_show_def subheader_def markdown_def read_frame_def px_def
  plotly_chart_def corr_numeric_def plt_subplots_def sns_heatmap_def pyplot_def
  on_filtered_def kpi_def dataframe_describe_def dataframe_def st_columns_def metric_def
  view_def

lemma panel1_pure: "pure_panel (panel1) [''fig1'']"
  unfolding pure_panel_def panel1_def stmt_defs
  by (auto simp: nth_append split: option.splits pyval.splits sum.splits if_splits matrix.splits)

lemma panel2_pure: "pure_panel (panel2) [''fig2'']"
  unfolding pure_panel_def panel2_def stmt_defs
  by (auto simp: nth_append split: option.splits pyval.splits sum.splits if_splits matrix.splits)

lemma panel3_pure: "pure_panel (panel3) [''fig3'']"
  unfolding pure_panel_def panel3_def stmt_defs
  by (auto simp: nth_append split: option.splits pyval.splits sum.splits if_splits matrix.splits)

lemma panel4_pure: "pure_panel (panel4) [''fig4'']"
  unfolding pure_panel_def panel4_def stmt_defs
  by (auto simp: nth_append split: option.splits pyval.splits sum.splits if_splits matrix.splits)

lemma panel5_pure: "pure_panel (panel5) [''fig5'']"
  unfolding pure_panel_def panel5_def stmt_defs
  by (auto simp: nth_append split: option.splits pyval.splits sum.splits if_splits matrix.splits)

lemma panel6_pure: "pure_panel (panel6) [''fig6'']"
  unfolding pure_panel_def panel6_def stmt_defs
  by (auto simp: nth_append split: option.splits pyval.splits sum.splits if_splits matrix.splits)

lemma panel7_pure: "pure_panel (panel7) [''fig7'']"
  unfolding pure_panel_def panel7_def stmt_defs
  by (auto simp: nth_append split: option.splits pyval.splits sum.splits if_splits matrix.splits)

lemma panel8_pure: "pure_panel (panel8 L) [''corr'', ''fig8'', ''ax'']"
  unfolding pure_panel_def panel8_def stmt_defs
  by (auto simp: nth_append split: option.splits pyval.splits sum.splits if_splits matrix.splits)

lemma panel9_pure: "pure_panel (panel9) [''fig9'']"
  unfolding pure_panel_def panel9_def stmt_defs
  by (auto simp: nth_append split: option.splits pyval.splits sum.splits if_splits matrix.splits)

lemma panel10_pure: "pure_panel (panel10) [''fig10'']"
  unfolding pure_panel_def panel10_def stmt_defs
  by (auto simp: nth_append split: option.splits pyval.splits sum.splits if_splits matrix.splits)

lemma panel11_pure: "pure_panel (panel11) [''fig11'']"
  unfolding pure_panel_def panel11_def stmt_defs
  by (auto simp: nth_append split: option.splits pyval.splits sum.splits if_splits matrix.splits)

lemma panel12_pure: "pure_panel (panel12) [''fig12'']"
  unfolding pure_panel_def panel12_def stmt_defs
  by (auto simp: nth_append split: option.splits pyval.splits sum.splits if_splits matrix.splits)

lemma panel13_pure: "pure_panel (panel13 L) [''df_daily'', ''fig13'']"
  unfolding pure_panel_def panel13_def stmt_defs
  by (auto simp: nth_append split: option.splits pyval.splits sum.splits if_splits matrix.splits)

lemma panel14_pure: "pure_panel (panel14 L) [''df_time'', ''fig14'']"
  unfolding pure_panel_def panel14_def stmt_defs
  by (auto simp: nth_append split: option.splits pyval.splits sum.splits if_splits matrix.splits)

lemma panel15_pure: "pure_panel (panel15) [''fig15'']"
  unfolding pure_panel_def panel15_def stmt_defs
  by (auto simp: nth_append split: option.splits pyval.splits sum.splits if_splits matrix.splits)

lemma panel16_pure: "pure_panel (panel16) [''fig16'']"
  unfolding pure_panel_def panel16_def stmt_defs
  by (auto simp: nth_append split: option.splits pyval.splits sum.splits if_splits matrix.splits)

lemma panel17_pure: "pure_panel (panel17) []"
  unfolding pure_panel_def panel17_def stmt_defs
  by (auto simp: nth_append split: option.splits pyval.splits sum.splits if_splits matrix.splits)

lemma panel18_pure: "pure_panel (panel18) []"
  unfolding pure_panel_def panel18_def stmt_defs
  by (auto simp: nth_append split: option.splits pyval.splits sum.splits if_splits matrix.splits)

lemma panel19_pure: "pure_panel (panel19 L) [''avg_rating'', ''avg_time'', ''avg_value'', ''col1'', ''col2'', ''col3'']"
  unfolding pure_panel_def panel19_def stmt_defs
  by (auto simp: nth_append split: option.splits pyval.splits sum.splits if_splits matrix.splits)

lemma panel20_pure: "pure_panel (panel20) [''fig20'']"
  unfolding pure_panel_def panel20_def stmt_defs
  by (auto simp: nth_append split: option.splits pyval.splits sum.splits if_splits matrix.splits)

lemma page_extends: "take (length a) b = a \<Longrightarrow> b = a @ drop (length a) b"
  by (metis append_take_drop_id)

lemma pure_panel_Nil: "pure_panel (run []) []"
  by (simp add: pure_panel_def)

lemma pure_panel_Cons:
  assumes p: "pure_panel p ws" and q: "pure_panel (run ps) wss"
  shows "pure_panel (run (p # ps)) (ws @ wss)"
  unfolding pure_panel_def
proof (intro allI impI)
  fix s t
  assume "run (p # ps) s = Inr t"
  then obtain u where u: "p s = Inr u" and t: "run ps u = Inr t"
    by (auto split: sum.splits)
  from p u have pu:
    "view u = view s"
    "vars u ''filtered_df'' = vars s ''filtered_df''"
    "\<forall>x. x \<notin> set ws \<longrightarrow> vars u x = vars s x"
    "take (length (heap s)) (heap u) = heap s"
    "take (length (page s)) (page u) = page s"
    "\<forall>s'. view s' = view s \<longrightarrow>
       (\<exists>t'. p s' = Inr t' \<and> page t' = page s' @ drop (length (page s)) (page u))"
    unfolding pure_panel_def by blast+
  from q t have qt:
    "view t = view u"
    "vars t ''filtered_df'' = vars u ''filtered_df''"
    "\<forall>x. x \<notin> set wss \<longrightarrow> vars t x = vars u x"
    "take (length (heap u)) (heap t) = heap u"
    "take (length (page u)) (page t) = page u"
    "\<forall>s'. view s' = view u \<longrightarrow>
       (\<exists>t'. run ps s' = Inr t' \<and> page t' = page s' @ drop (length (page u)) (page t))"
    unfolding pure_panel_def by blast+
  obtain h1 where h1: "heap u = heap s @ h1" using page_extends [OF pu(4)] by blast
  obtain h2 where h2: "heap t = heap u @ h2" using page_extends [OF qt(4)] by blast
  obtain o1 where o1: "page u = page s @ o1" using page_extends [OF pu(5)] by blast
  obtain o2 where o2: "page t = page u @ o2" using page_extends [OF qt(5)] by blast
  have d: "drop (length (page s)) (page t) = o1 @ o2" by (simp add: o1 o2)
  have d1: "drop (length (page s)) (page u) = o1" by (simp add: o1)
  have d2: "drop (length (page u)) (page t) = o2" by (simp add: o2)
  have 0: "view t = view s" using pu(1) qt(1) by simp
  have 1: "vars t ''filtered_df'' = vars s ''filtered_df''" using pu(2) qt(2) by simp
  have 2: "\<forall>x. x \<notin> set (ws @ wss) \<longrightarrow> vars t x = vars s x" using pu(3) qt(3) by simp
  have 3: "take (length (heap s)) (heap t) = heap s" by (simp add: h1 h2)
  have 4: "take (length (page s)) (page t) = page s" by (simp add: o1 o2)
  have 5: "\<exists>t'. run (p # ps) s' = Inr t' \<and>
             page t' = page s' @ drop (length (page s)) (page t)"
    if s': "view s' = view s" for s'
  proof -
    from pu(6) s' obtain u' where u': "p s' = Inr u'" "page u' = page s' @ o1"
      unfolding d1 by blast
    from p u'(1) have "view u' = view s'"
      unfolding pure_panel_def by blast
    with s' pu(1) have "view u' = view u" by simp
    with qt(6) obtain t' where t': "run ps u' = Inr t'" "page t' = page u' @ o2"
      unfolding d2 by blast
    from u' t' show ?thesis by (simp add: d)
  qed
  show "view t = view s \<and>
        vars t ''filtered_df'' = vars s ''filtered_df'' \<and>
        (\<forall>x. x \<notin> set (ws @ wss) \<longrightarrow> vars t x = vars s x) \<and>
        take (length (heap s)) (heap t) = heap s \<and>
        take (length (page s)) (page t) = page s \<and>
        (\<forall>s'. view s' = view s \<longrightarrow>
           (\<exists>t'. run (p # ps) s' = Inr t' \<and>
                 page t' = page s' @ drop (length (page s)) (page t)))"
    by (intro conjI allI impI; (rule 0 1 3 4 | erule 5 | rule 2 [THEN spec, THEN mp]; assumption))
qed

lemma run_pure: "list_all2 pure_panel ps wss \<Longrightarrow> pure_panel (run ps) (concat wss)"
proof (induction rule: list_all2_induct)
  case Nil
  show ?case unfolding concat.simps by (rule pure_panel_Nil)
next
  case (Cons p ps ws wss)
  show ?case unfolding concat.simps by (rule pure_panel_Cons [OF Cons(1) Cons(3)])
qed

lemma panels_pure: "list_all2 pure_panel (panels L) panel_writes"
  unfolding panels_def panel_writes_def
  by (simp add: panel1_pure panel2_pure panel3_pure panel4_pure panel5_pure panel6_pure panel7_pure panel8_pure panel9_pure panel10_pure panel11_pure panel12_pure panel13_pure panel14_pure panel15_pure panel16_pure panel17_pure panel18_pure panel19_pure panel20_pure)

lemma render_pure: "pure_panel (render L) (concat panel_writes)"
  unfolding render_def using panels_pure by (rule run_pure)

lemma view_initial_session: "view (initial_session fdf) = Some (VFrame fdf)"
  by (simp add: view_def initial_session_def)

text \<open>Overwriting the object of the filtered view is not pure: the property can fail.\<close>

lemma overwrite_view_not_pure: "\<not> pure_panel overwrite_view ws"
proof
  assume a: "pure_panel overwrite_view ws"
  let ?s = "initial_session trend_df"
  let ?t = "?s\<lparr>heap := [VFrame \<lparr>columns = [], rows = []\<rparr>]\<rparr>"
  have "overwrite_view ?s = Inr ?t"
    by (simp add: overwrite_view_def initial_session_def)
  with a have "view ?t = view ?s"
    unfolding pure_panel_def by blast
  then show False
    by (simp add: view_def initial_session_def trend_df_def)
qed

lemma run_total:
  assumes "list_all (\<lambda>p. \<forall>s. view s = Some v \<longrightarrow> (\<exists>t. p s = Inr t \<and> view t = Some v)) ps"
    and "view s = Some v"
  shows "\<exists>t. run ps s = Inr t \<and> view t = Some v"
  using assms
proof (induction ps arbitrary: s)
  case Nil
  then show ?case by simp
next
  case (Cons p ps)
  from Cons.prems obtain u where u: "p s = Inr u" "view u = Some v"
    by auto
  from Cons.prems(1)
  have "list_all (\<lambda>p. \<forall>s. view s = Some v \<longrightarrow> (\<exists>t. p s = Inr t \<and> view t = Some v)) ps"
    by simp
  from Cons.IH [OF this u(2)] u(1) show ?case by simp
qed

lemma pure_returns:
  assumes "pure_panel p ws" and "p s0 = Inr t0" and "view s = view s0"
  shows "\<exists>t. p s = Inr t \<and> view t = view s0"
proof -
  from assms obtain t where t: "p s = Inr t"
    unfolding pure_panel_def by blast
  with assms(1) have "view t = view s"
    unfolding pure_panel_def by blast
  with t assms(3) show ?thesis by simp
qed

lemma panel1_trend_df:
  assumes "view s = Some (VFrame trend_df)"
  shows "\<exists>t. panel1 s = Inr t \<and> view t = Some (VFrame trend_df)"
proof -
  have "\<exists>t. panel1 (initial_session trend_df) = Inr t"
    unfolding panel1_def
    by (simp add: stmt_defs initial_session_def trend_df_def exact_lib_def
          df_daily_def df_time_def groupby_mean_def getitem_def group_keys_def group_values_def
          group_mean_def is_datetime64_def mean_def float_mean_def cell_at_def
          avg_rating_def avg_time_def avg_value_def)
  then obtain t0 where "panel1 (initial_session trend_df) = Inr t0"
    by blast
  from pure_returns [OF panel1_pure this] assms show ?thesis
    by (simp add: view_initial_session)
qed

lemma panel2_trend_df:
  assumes "view s = Some (VFrame trend_df)"
  shows "\<exists>t. panel2 s = Inr t \<and> view t = Some (VFrame trend_df)"
proof -
  have "\<exists>t. panel2 (initial_session trend_df) = Inr t"
    unfolding panel2_def
    by (simp add: stmt_defs initial_session_def trend_df_def exact_lib_def
          df_daily_def df_time_def groupby_mean_def getitem_def group_keys_def group_values_def
          group_mean_def is_datetime64_def mean_def float_mean_def cell_at_def
          avg_rating_def avg_time_def avg_value_def)
  then obtain t0 where "panel2 (initial_session trend_df) = Inr t0"
    by blast
  from pure_returns [OF panel2_pure this] assms show ?thesis
    by (simp add: view_initial_session)
qed

lemma panel3_trend_df:
  assumes "view s = Some (VFrame trend_df)"
  shows "\<exists>t. panel3 s = Inr t \<and> view t = Some (VFrame trend_df)"
proof -
  have "\<exists>t. panel3 (initial_session trend_df) = Inr t"
    unfolding panel3_def
    by (simp add: stmt_defs initial_session_def trend_df_def exact_lib_def
          df_daily_def df_time_def groupby_mean_def getitem_def group_keys_def group_values_def
          group_mean_def is_datetime64_def mean_def float_mean_def cell_at_def
          avg_rating_def avg_time_def avg_value_def)
  then obtain t0 where "panel3 (initial_session trend_df) = Inr t0"
    by blast
  from pure_returns [OF panel3_pure this] assms show ?thesis
    by (simp add: view_initial_session)
qed

lemma panel4_trend_df:
  assumes "view s = Some (VFrame trend_df)"
  shows "\<exists>t. panel4 s = Inr t \<and> view t = Some (VFrame trend_df)"
proof -
  have "\<exists>t. panel4 (initial_session trend_df) = Inr t"
    unfolding panel4_def
    by (simp add: stmt_defs initial_session_def trend_df_def exact_lib_def
          df_daily_def df_time_def groupby_mean_def getitem_def group_keys_def group_values_def
          group_mean_def is_datetime64_def mean_def float_mean_def cell_at_def
          avg_rating_def avg_time_def avg_value_def)
  then obtain t0 where "panel4 (initial_session trend_df) = Inr t0"
    by blast
  from pure_returns [OF panel4_pure this] assms show ?thesis
    by (simp add: view_initial_session)
qed

lemma panel5_trend_df:
  assumes "view s = Some (VFrame trend_df)"
  shows "\<exists>t. panel5 s = Inr t \<and> view t = Some (VFrame trend_df)"
proof -
  have "\<exists>t. panel5 (initial_session trend_df) = Inr t"
    unfolding panel5_def
    by (simp add: stmt_defs initial_session_def trend_df_def exact_lib_def
          df_daily_def df_time_def groupby_mean_def getitem_def group_keys_def group_values_def
          group_mean_def is_datetime64_def mean_def float_mean_def cell_at_def
          avg_rating_def avg_time_def avg_value_def)
  then obtain t0 where "panel5 (initial_session trend_df) = Inr t0"
    by blast
  from pure_returns [OF panel5_pure this] assms show ?thesis
    by (simp add: view_initial_session)
qed

lemma panel6_trend_df:
  assumes "view s = Some (VFrame trend_df)"
  shows "\<exists>t. panel6 s = Inr t \<and> view t = Some (VFrame trend_df)"
proof -
  have "\<exists>t. panel6 (initial_session trend_df) = Inr t"
    unfolding panel6_def
    by (simp add: stmt_defs initial_session_def trend_df_def exact_lib_def
          df_daily_def df_time_def groupby_mean_def getitem_def group_keys_def group_values_def
          group_mean_def is_datetime64_def mean_def float_mean_def cell_at_def
          avg_rating_def avg_time_def avg_value_def)
  then obtain t0 where "panel6 (initial_session trend_df) = Inr t0"
    by blast
  from pure_returns [OF panel6_pure this] assms show ?thesis
    by (simp add: view_initial_session)
qed

lemma panel7_trend_df:
  assumes "view s = Some (VFrame trend_df)"
  shows "\<exists>t. panel7 s = Inr t \<and> view t = Some (VFrame trend_df)"
proof -
  have "\<exists>t. panel7 (initial_session trend_df) = Inr t"
    unfolding panel7_def
    by (simp add: stmt_defs initial_session_def trend_df_def exact_lib_def
          df_daily_def df_time_def groupby_mean_def getitem_def group_keys_def group_values_def
          group_mean_def is_datetime64_def mean_def float_mean_def cell_at_def
          avg_rating_def avg_time_def avg_value_def)
  then obtain t0 where "panel7 (initial_session trend_df) = Inr t0"
    by blast
  from pure_returns [OF panel7_pure this] assms show ?thesis
    by (simp add: view_initial_session)
qed

lemma panel8_trend_df:
  assumes "view s = Some (VFrame trend_df)"
  shows "\<exists>t. panel8 exact_lib s = Inr t \<and> view t = Some (VFrame trend_df)"
proof -
  have "\<exists>t. panel8 exact_lib (initial_session trend_df) = Inr t"
    unfolding panel8_def
    by (simp add: stmt_defs initial_session_def trend_df_def exact_lib_def
          df_daily_def df_time_def groupby_mean_def getitem_def group_keys_def group_values_def
          group_mean_def is_datetime64_def mean_def float_mean_def cell_at_def
          avg_rating_def avg_time_def avg_value_def)
  then obtain t0 where "panel8 exact_lib (initial_session trend_df) = Inr t0"
    by blast
  from pure_returns [OF panel8_pure this] assms show ?thesis
    by (simp add: view_initial_session)
qed

lemma panel9_trend_df:
  assumes "view s = Some (VFrame trend_df)"
  shows "\<exists>t. panel9 s = Inr t \<and> view t = Some (VFrame trend_df)"
proof -
  have "\<exists>t. panel9 (initial_session trend_df) = Inr t"
    unfolding panel9_def
    by (simp add: stmt_defs initial_session_def trend_df_def exact_lib_def
          df_daily_def df_time_def groupby_mean_def getitem_def group_keys_def group_values_def
          group_mean_def is_datetime64_def mean_def float_mean_def cell_at_def
          avg_rating_def avg_time_def avg_value_def)
  then obtain t0 where "panel9 (initial_session trend_df) = Inr t0"
    by blast
  from pure_returns [OF panel9_pure this] assms show ?thesis
    by (simp add: view_initial_session)
qed

lemma panel10_trend_df:
  assumes "view s = Some (VFrame trend_df)"
  shows "\<exists>t. panel10 s = Inr t \<and> view t = Some (VFrame trend_df)"
proof -
  have "\<exists>t. panel10 (initial_session trend_df) = Inr t"
    unfolding panel10_def
    by (simp add: stmt_defs initial_session_def trend_df_def exact_lib_def
          df_daily_def df_time_def groupby_mean_def getitem_def group_keys_def group_values_def
          group_mean_def is_datetime64_def mean_def float_mean_def cell_at_def
          avg_rating_def avg_time_def avg_value_def)
  then obtain t0 where "panel10 (initial_session trend_df) = Inr t0"
    by blast
  from pure_returns [OF panel10_pure this] assms show ?thesis
    by (simp add: view_initial_session)
qed

lemma panel11_trend_df:
  assumes "view s = Some (VFrame trend_df)"
  shows "\<exists>t. panel11 s = Inr t \<and> view t = Some (VFrame trend_df)"
proof -
  have "\<exists>t. panel11 (initial_session trend_df) = Inr t"
    unfolding panel11_def
    by (simp add: stmt_defs initial_session_def trend_df_def exact_lib_def
          df_daily_def df_time_def groupby_mean_def getitem_def group_keys_def group_values_def
          group_mean_def is_datetime64_def mean_def float_mean_def cell_at_def
          avg_rating_def avg_time_def avg_value_def)
  then obtain t0 where "panel11 (initial_session trend_df) = Inr t0"
    by blast
  from pure_returns [OF panel11_pure this] assms show ?thesis
    by (simp add: view_initial_session)
qed

lemma panel12_trend_df:
  assumes "view s = Some (VFrame trend_df)"
  shows "\<exists>t. panel12 s = Inr t \<and> view t = Some (VFrame trend_df)"
proof -
  have "\<exists>t. panel12 (initial_session trend_df) = Inr t"
    unfolding panel12_def
    by (simp add: stmt_defs initial_session_def trend_df_def exact_lib_def
          df_daily_def df_time_def groupby_mean_def getitem_def group_keys_def group_values_def
          group_mean_def is_datetime64_def mean_def float_mean_def cell_at_def
          avg_rating_def avg_time_def avg_value_def)
  then obtain t0 where "panel12 (initial_session trend_df) = Inr t0"
    by blast
  from pure_returns [OF panel12_pure this] assms show ?thesis
    by (simp add: view_initial_session)
qed

lemma panel13_trend_df:
  assumes "view s = Some (VFrame trend_df)"
  shows "\<exists>t. panel13 exact_lib s = Inr t \<and> view t = Some (VFrame trend_df)"
proof -
  have "\<exists>t. panel13 exact_lib (initial_session trend_df) = Inr t"
    unfolding panel13_def
    by (simp add: stmt_defs initial_session_def trend_df_def exact_lib_def
          df_daily_def df_time_def groupby_mean_def getitem_def group_keys_def group_values_def
          group_mean_def is_datetime64_def mean_def float_mean_def cell_at_def
          avg_rating_def avg_time_def avg_value_def)
  then obtain t0 where "panel13 exact_lib (initial_session trend_df) = Inr t0"
    by blast
  from pure_returns [OF panel13_pure this] assms show ?thesis
    by (simp add: view_initial_session)
qed

lemma panel14_trend_df:
  assumes "view s = Some (VFrame trend_df)"
  shows "\<exists>t. panel14 exact_lib s = Inr t \<and> view t = Some (VFrame trend_df)"
proof -
  have "\<exists>t. panel14 exact_lib (initial_session trend_df) = Inr t"
    unfolding panel14_def
    by (simp add: stmt_defs initial_session_def trend_df_def exact_lib_def
          df_daily_def df_time_def groupby_mean_def getitem_def group_keys_def group_values_def
          group_mean_def is_datetime64_def mean_def float_mean_def cell_at_def
          avg_rating_def avg_time_def avg_value_def)
  then obtain t0 where "panel14 exact_lib (initial_session trend_df) = Inr t0"
    by blast
  from pure_returns [OF panel14_pure this] assms show ?thesis
    by (simp add: view_initial_session)
qed

lemma panel15_trend_df:
  assumes "view s = Some (VFrame trend_df)"
  shows "\<exists>t. panel15 s = Inr t \<and> view t = Some (VFrame trend_df)"
proof -
  have "\<exists>t. panel15 (initial_session trend_df) = Inr t"
    unfolding panel15_def
    by (simp add: stmt_defs initial_session_def trend_df_def exact_lib_def
          df_daily_def df_time_def groupby_mean_def getitem_def group_keys_def group_values_def
          group_mean_def is_datetime64_def mean_def float_mean_def cell_at_def
          avg_rating_def avg_time_def avg_value_def)
  then obtain t0 where "panel15 (initial_session trend_df) = Inr t0"
    by blast
  from pure_returns [OF panel15_pure this] assms show ?thesis
    by (simp add: view_initial_session)
qed

lemma panel16_trend_df:
  assumes "view s = Some (VFrame trend_df)"
  shows "\<exists>t. panel16 s = Inr t \<and> view t = Some (VFrame trend_df)"
proof -
  have "\<exists>t. panel16 (initial_session trend_df) = Inr t"
    unfolding panel16_def
    by (simp add: stmt_defs initial_session_def trend_df_def exact_lib_def
          df_daily_def df_time_def groupby_mean_def getitem_def group_keys_def group_values_def
          group_mean_def is_datetime64_def mean_def float_mean_def cell_at_def
          avg_rating_def avg_time_def avg_value_def)
  then obtain t0 where "panel16 (initial_session trend_df) = Inr t0"
    by blast
  from pure_returns [OF panel16_pure this] assms show ?thesis
    by (simp add: view_initial_session)
qed

lemma panel17_trend_df:
  assumes "view s = Some (VFrame trend_df)"
  shows "\<exists>t. panel17 s = Inr t \<and> view t = Some (VFrame trend_df)"
proof -
  have "\<exists>t. panel17 (initial_session trend_df) = Inr t"
    unfolding panel17_def
    by (simp add: stmt_defs initial_session_def trend_df_def exact_lib_def
          df_daily_def df_time_def groupby_mean_def getitem_def group_keys_def group_values_def
          group_mean_def is_datetime64_def mean_def float_mean_def cell_at_def
          avg_rating_def avg_time_def avg_value_def)
  then obtain t0 where "panel17 (initial_session trend_df) = Inr t0"
    by blast
  from pure_returns [OF panel17_pure this] assms show ?thesis
    by (simp add: view_initial_session)
qed

lemma panel18_trend_df:
  assumes "view s = Some (VFrame trend_df)"
  shows "\<exists>t. panel18 s = Inr t \<and> view t = Some (VFrame trend_df)"
proof -
  have "\<exists>t. panel18 (initial_session trend_df) = Inr t"
    unfolding panel18_def
    by (simp add: stmt_defs initial_session_def trend_df_def exact_lib_def
          df_daily_def df_time_def groupby_mean_def getitem_def group_keys_def group_values_def
          group_mean_def is_datetime64_def mean_def float_mean_def cell_at_def
          avg_rating_def avg_time_def avg_value_def)
  then obtain t0 where "panel18 (initial_session trend_df) = Inr t0"
    by blast
  from pure_returns [OF panel18_pure this] assms show ?thesis
    by (simp add: view_initial_session)
qed

lemma panel19_trend_df:
  assumes "view s = Some (VFrame trend_df)"
  shows "\<exists>t. panel19 exact_lib s = Inr t \<and> view t = Some (VFrame trend_df)"
proof -
  have "\<exists>t. panel19 exact_lib (initial_session trend_df) = Inr t"
    unfolding panel19_def
    by (simp add: stmt_defs initial_session_def trend_df_def exact_lib_def
          df_daily_def df_time_def groupby_mean_def getitem_def group_keys_def group_values_def
          group_mean_def is_datetime64_def mean_def float_mean_def cell_at_def
          avg_rating_def avg_time_def avg_value_def)
  then obtain t0 where "panel19 exact_lib (initial_session trend_df) = Inr t0"
    by blast
  from pure_returns [OF panel19_pure this] assms show ?thesis
    by (simp add: view_initial_session)
qed

lemma panel20_trend_df:
  assumes "view s = Some (VFrame trend_df)"
  shows "\<exists>t. panel20 s = Inr t \<and> view t = Some (VFrame trend_df)"
proof -
  have "\<exists>t. panel20 (initial_session trend_df) = Inr t"
    unfolding panel20_def
    by (simp add: stmt_defs initial_session_def trend_df_def exact_lib_def
          df_daily_def df_time_def groupby_mean_def getitem_def group_keys_def group_values_def
          group_mean_def is_datetime64_def mean_def float_mean_def cell_at_def
          avg_rating_def avg_time_def avg_value_def)
  then obtain t0 where "panel20 (initial_session trend_df) = Inr t0"
    by blast
  from pure_returns [OF panel20_pure this] assms show ?thesis
    by (simp add: view_initial_session)
qed

lemma render_trend_df:
  "\<exists>t. render exact_lib (initial_session trend_df) = Inr t"
proof -
  have "list_all (\<lambda>p. \<forall>s. view s = Some (VFrame trend_df) \<longrightarrow>
                        (\<exists>t. p s = Inr t \<and> view t = Some (VFrame trend_df))) (panels exact_lib)"
    unfolding panels_def
    by (simp add: panel1_trend_df panel2_trend_df panel3_trend_df panel4_trend_df panel5_trend_df panel6_trend_df panel7_trend_df panel8_trend_df panel9_trend_df panel10_trend_df panel11_trend_df panel12_trend_df panel13_trend_df panel14_trend_df panel15_trend_df panel16_trend_df panel17_trend_df panel18_trend_df panel19_trend_df panel20_trend_df)
  from run_total [OF this view_initial_session] show ?thesis
    unfolding render_def by blast
qed

section \<open>The filter is exact\<close>

text \<open>
  Claim C1. Whenever the filter returns a view, the view has the columns of the base
  table and its rows are exactly the rows of the base table, in order, whose Driver
  Rating is a number between \<open>min_rating\<close> and \<open>max_rating\<close> (both included), whose
  Customer Type is a member of \<open>customer_type\<close> and whose Payment Method is a member of
  \<open>payment_method\<close>; it returns a view on every filterable table. On the two-row example
  with range [3, 5] and both selections full the view is the first row alone, and the
  mean Order Value over it is 50.
\<close>

theorem filter_exact:
  "(\<forall>df min_rating max_rating customer_type payment_method v.
      filtered_df df min_rating max_rating customer_type payment_method = Inr v \<longrightarrow>
      (\<exists>i j k.
         col_index ''Driver Rating'' (columns df) = Some i \<and>
         col_index ''Customer Type'' (columns df) = Some j \<and>
         col_index ''Payment Method'' (columns df) = Some k \<and>
         columns v = columns df \<and>
         rows v =
           filter (\<lambda>r. (\<exists>x. cell_at i r = Num x \<and> min_rating \<le> x \<and> x \<le> max_rating) \<and>
                        cell_at j r \<in> set customer_type \<and>
                        cell_at k r \<in> set payment_method) (rows df)))
   \<and> (\<forall>df min_rating max_rating customer_type payment_method.
        filterable df \<longrightarrow>
        (\<exists>v. filtered_df df min_rating max_rating customer_type payment_method = Inr v))
   \<and> filtered_df example_df 3 5 [Str ''New'', Str ''Repeat''] [Str ''Cash'', Str ''Card'']
        = Inr (example_df\<lparr>rows := [[Num 4, Str ''New'', Str ''Cash'', Num 50]]\<rparr>)
   \<and> (\<forall>L. avg_value L (example_df\<lparr>rows := [[Num 4, Str ''New'', Str ''Cash'', Num 50]]\<rparr>)
        = Inr (Num 50))"
proof (intro conjI allI impI)
  fix df lo hi cts pms v
  assume "filtered_df df lo hi cts pms = Inr v"
  then obtain i j k where
    c: "col_index ''Driver Rating'' (columns df) = Some i"
       "col_index ''Customer Type'' (columns df) = Some j"
       "col_index ''Payment Method'' (columns df) = Some k"
    and v: "v = df\<lparr>rows := filter (row_passes i j k lo hi cts pms) (rows df)\<rparr>"
    unfolding filtered_df_Inr_iff by blast
  have "row_passes i j k lo hi cts pms =
        (\<lambda>r. (\<exists>x. cell_at i r = Num x \<and> lo \<le> x \<and> x \<le> hi) \<and>
              cell_at j r \<in> set cts \<and> cell_at k r \<in> set pms)"
    by (simp add: row_passes_def in_range_iff fun_eq_iff)
  with c v show "\<exists>i j k.
         col_index ''Driver Rating'' (columns df) = Some i \<and>
         col_index ''Customer Type'' (columns df) = Some j \<and>
         col_index ''Payment Method'' (columns df) = Some k \<and>
         columns v = columns df \<and>
         rows v =
           filter (\<lambda>r. (\<exists>x. cell_at i r = Num x \<and> lo \<le> x \<and> x \<le> hi) \<and>
                        cell_at j r \<in> set cts \<and>
                        cell_at k r \<in> set pms) (rows df)"
    by simp
next
  fix df :: frame and lo hi cts pms
  assume "filterable df"
  then show "\<exists>v. filtered_df df lo hi cts pms = Inr v"
    using filterable_iff [of df lo hi cts pms] by simp
next
  show "filtered_df example_df 3 5 [Str ''New'', Str ''Repeat''] [Str ''Cash'', Str ''Card'']
        = Inr (example_df\<lparr>rows := [[Num 4, Str ''New'', Str ''Cash'', Num 50]]\<rparr>)"
    by (simp add: filtered_df_eq example_df_def row_passes_def in_range_def cell_at_def
          is_numeric_def)
next
  fix L
  show "avg_value L (example_df\<lparr>rows := [[Num 4, Str ''New'', Str ''Cash'', Num 50]]\<rparr>)
        = Inr (Num 50)"
    by (simp add: avg_value_def getitem_def example_df_def cell_at_def mean_def float_mean_def)
qed

theorem filter_exact_witness:
  "filterable example_df \<and>
   (\<exists>v. filtered_df example_df 3 5 [Str ''New'', Str ''Repeat''] [Str ''Cash'', Str ''Card''] = Inr v
      \<and> columns v = columns example_df
      \<and> rows v = [[Num 4, Str ''New'', Str ''Cash'', Num 50]])"
proof -
  have f: "filterable example_df"
    by (simp add: filterable_def example_df_def cell_at_def is_numeric_def)
  with filter_exact obtain v where
    v: "filtered_df example_df 3 5 [Str ''New'', Str ''Repeat''] [Str ''Cash'', Str ''Card'']
          = Inr v"
    by blast
  with filter_exact obtain i j k where
    c: "col_index ''Driver Rating'' (columns example_df) = Some i"
       "col_index ''Customer Type'' (columns example_df) = Some j"
       "col_index ''Payment Method'' (columns example_df) = Some k"
       "columns v = columns example_df"
    and r: "rows v =
           filter (\<lambda>r. (\<exists>x. cell_at i r = Num x \<and> 3 \<le> x \<and> x \<le> 5) \<and>
                        cell_at j r \<in> set [Str ''New'', Str ''Repeat''] \<and>
                        cell_at k r \<in> set [Str ''Cash'', Str ''Card'']) (rows example_df)"
    by blast
  from c(1-3) have "i = 0" "j = 1" "k = 2"
    by (simp_all add: example_df_def)
  with r have "rows v = [[Num 4, Str ''New'', Str ''Cash'', Num 50]]"
    by (simp add: example_df_def cell_at_def)
  with f v c(4) show ?thesis by blast
qed

section \<open>Empty selections\<close>

text \<open>
  Claim C2. When \<open>customer_type\<close> or \<open>payment_method\<close> is empty, the filter returns
  the view with zero rows on every filterable table, whatever the rating range and the
  other selection are; and whenever it returns a view at all, that view has zero rows.
\<close>

theorem empty_selection_empty_view:
  assumes "customer_type = [] \<or> payment_method = []"
  shows "(filterable df \<longrightarrow>
            filtered_df df min_rating max_rating customer_type payment_method
              = Inr (df\<lparr>rows := []\<rparr>))
         \<and> (\<forall>v. filtered_df df min_rating max_rating customer_type payment_method = Inr v
               \<longrightarrow> rows v = [] \<and> columns v = columns df)"
proof -
  have e: "filter (row_passes i j k min_rating max_rating customer_type payment_method) rs = []"
    for i j k rs
    using assms by (auto simp: row_passes_def filter_empty_conv)
  have 2: "v = df\<lparr>rows := []\<rparr>"
    if "filtered_df df min_rating max_rating customer_type payment_method = Inr v" for v
  proof -
    from that obtain i j k where
      "v = df\<lparr>rows := filter (row_passes i j k min_rating max_rating customer_type payment_method) (rows df)\<rparr>"
      unfolding filtered_df_Inr_iff by blast
    then show ?thesis by (simp add: e)
  qed
  have 1: "filtered_df df min_rating max_rating customer_type payment_method
              = Inr (df\<lparr>rows := []\<rparr>)" if "filterable df"
  proof -
    from that obtain v where
      v: "filtered_df df min_rating max_rating customer_type payment_method = Inr v"
      using filterable_iff [of df min_rating max_rating customer_type payment_method] by blast
    with 2 [OF v] show ?thesis by simp
  qed
  have 3: "rows v = [] \<and> columns v = columns df"
    if "filtered_df df min_rating max_rating customer_type payment_method = Inr v" for v
    using 2 [OF that] by simp
  from 1 3 show ?thesis by blast
qed

theorem empty_selection_empty_view_witness:
  "filterable example_df \<and>
   filtered_df example_df 1 5 [] [Str ''Cash'', Str ''Card''] = Inr (example_df\<lparr>rows := []\<rparr>)
   \<and> filtered_df example_df 3 5 [Str ''New''] [] = Inr (example_df\<lparr>rows := []\<rparr>)"
proof -
  have f: "filterable example_df"
    by (simp add: filterable_def example_df_def cell_at_def is_numeric_def)
  have a: "([]::cell list) = [] \<or> [Str ''Cash'', Str ''Card''] = []" by simp
  have b: "[Str ''New''] = [] \<or> ([]::cell list) = []" by simp
  from empty_selection_empty_view [OF a, of example_df 1 5]
    empty_selection_empty_view [OF b, of example_df 3 5] f
  show ?thesis by blast
qed

section \<open>Filtering is idempotent\<close>

text \<open>
  Claim C7. Applying the filter, with the same rating range and selections, to the view
  it returned gives that view again.
\<close>

theorem filter_idempotent:
  assumes "filtered_df df min_rating max_rating customer_type payment_method = Inr v"
  shows "filtered_df v min_rating max_rating customer_type payment_method = Inr v"
proof -
  from assms obtain i j k where
    c: "col_index ''Driver Rating'' (columns df) = Some i"
       "col_index ''Customer Type'' (columns df) = Some j"
       "col_index ''Payment Method'' (columns df) = Some k"
    and n: "list_all (\<lambda>r. is_numeric (cell_at i r)) (rows df)"
    and v: "v = df\<lparr>rows := filter (row_passes i j k min_rating max_rating customer_type payment_method) (rows df)\<rparr>"
    unfolding filtered_df_Inr_iff by blast
  from n have "list_all (\<lambda>r. is_numeric (cell_at i r)) (rows v)"
    by (simp add: v list_all_iff)
  moreover have "columns v = columns df" by (simp add: v)
  moreover have "v\<lparr>rows := filter (row_passes i j k min_rating max_rating customer_type payment_method) (rows v)\<rparr> = v"
    by (simp add: v)
  ultimately show ?thesis
    unfolding filtered_df_Inr_iff [of v] using c by simp
qed

theorem filter_idempotent_witness:
  "filtered_df example_df 3 5 [Str ''New'', Str ''Repeat''] [Str ''Cash'', Str ''Card'']
     = Inr (example_df\<lparr>rows := [[Num 4, Str ''New'', Str ''Cash'', Num 50]]\<rparr>) \<and>
   filtered_df (example_df\<lparr>rows := [[Num 4, Str ''New'', Str ''Cash'', Num 50]]\<rparr>) 3 5
       [Str ''New'', Str ''Repeat''] [Str ''Cash'', Str ''Card'']
     = Inr (example_df\<lparr>rows := [[Num 4, Str ''New'', Str ''Cash'', Num 50]]\<rparr>)"
proof -
  have h: "filtered_df example_df 3 5 [Str ''New'', Str ''Repeat''] [Str ''Cash'', Str ''Card'']
     = Inr (example_df\<lparr>rows := [[Num 4, Str ''New'', Str ''Cash'', Num 50]]\<rparr>)"
    by (simp add: filtered_df_eq example_df_def row_passes_def in_range_def cell_at_def
          is_numeric_def)
  from filter_idempotent [OF h] h show ?thesis by simp
qed

section \<open>The filter is monotone\<close>

text \<open>
  Claim C10. If the rating interval grows and both selections grow, the filter still
  returns a view, every row of the smaller view is a row of the larger one (the smaller
  is a subsequence of the larger, and is what the smaller inputs select from the
  larger); with the default inputs (range [1, 5], both selections all the distinct
  values of their columns) the view holds exactly the rows whose rating is a number
  between 1 and 5, so every row with a rating in the documented domain is retained.
\<close>

theorem filter_monotone:
  "(\<forall>df lo hi lo' hi' cts cts' pms pms' v.
      lo' \<le> lo \<and> hi \<le> hi' \<and> set cts \<subseteq> set cts' \<and> set pms \<subseteq> set pms' \<and>
      filtered_df df lo hi cts pms = Inr v \<longrightarrow>
      (\<exists>v'. filtered_df df lo' hi' cts' pms' = Inr v' \<and>
            set (rows v) \<subseteq> set (rows v') \<and> subseq (rows v) (rows v') \<and>
            filtered_df v' lo hi cts pms = Inr v))
   \<and> (\<forall>df v. default_filtered_df df = Inr v \<longrightarrow>
        (\<exists>i. col_index ''Driver Rating'' (columns df) = Some i \<and>
             rows v = filter (\<lambda>r. \<exists>x. cell_at i r = Num x \<and> 1 \<le> x \<and> x \<le> 5) (rows df)))
   \<and> (\<forall>df. filterable df \<longrightarrow> (\<exists>v. default_filtered_df df = Inr v))"
proof (intro conjI allI impI)
  fix df lo hi lo' hi' cts cts' pms pms' v
  assume a: "lo' \<le> lo \<and> hi \<le> hi' \<and> set cts \<subseteq> set cts' \<and> set pms \<subseteq> set pms' \<and>
      filtered_df df lo hi cts pms = Inr v"
  then obtain i j k where
    c: "col_index ''Driver Rating'' (columns df) = Some i"
       "col_index ''Customer Type'' (columns df) = Some j"
       "col_index ''Payment Method'' (columns df) = Some k"
    and n: "list_all (\<lambda>r. is_numeric (cell_at i r)) (rows df)"
    and v: "v = df\<lparr>rows := filter (row_passes i j k lo hi cts pms) (rows df)\<rparr>"
    unfolding filtered_df_Inr_iff by blast
  define v' where "v' = df\<lparr>rows := filter (row_passes i j k lo' hi' cts' pms') (rows df)\<rparr>"
  have imp: "row_passes i j k lo hi cts pms r \<Longrightarrow> row_passes i j k lo' hi' cts' pms' r" for r
    using a by (auto simp: row_passes_def in_range_iff)
  have f: "filter (row_passes i j k lo hi cts pms) (rows v') = rows v"
    using imp by (auto simp: v v'_def intro: filter_cong)
  have 1: "filtered_df df lo' hi' cts' pms' = Inr v'"
    unfolding filtered_df_Inr_iff v'_def using c n by simp
  have 2: "set (rows v) \<subseteq> set (rows v')"
    using imp by (auto simp: v v'_def)
  have 3: "subseq (rows v) (rows v')"
    unfolding f [symmetric] by (rule subseq_filter_left)
  have "v'\<lparr>rows := rows v\<rparr> = v" by (simp add: v v'_def)
  then have 4: "filtered_df v' lo hi cts pms = Inr v"
    unfolding filtered_df_Inr_iff [of v'] using c n f by (simp add: v'_def list_all_iff)
  from 1 2 3 4 show "\<exists>v'. filtered_df df lo' hi' cts' pms' = Inr v' \<and>
            set (rows v) \<subseteq> set (rows v') \<and> subseq (rows v) (rows v') \<and>
            filtered_df v' lo hi cts pms = Inr v" by blast
next
  fix df v
  assume "default_filtered_df df = Inr v"
  then show "\<exists>i. col_index ''Driver Rating'' (columns df) = Some i \<and>
             rows v = filter (\<lambda>r. \<exists>x. cell_at i r = Num x \<and> 1 \<le> x \<and> x \<le> 5) (rows df)"
    unfolding default_filtered_df_def getitem_def
    by (auto simp: filtered_df_Inr_iff row_passes_def in_range_iff set_unique
          split: option.splits intro!: filter_cong)
next
  fix df :: frame
  assume "filterable df"
  then show "\<exists>v. default_filtered_df df = Inr v"
    unfolding default_filtered_df_def getitem_def filterable_def
    by (auto simp: filtered_df_Inr_iff split: option.splits)
qed

theorem filter_monotone_witness:
  "filtered_df example_df 3 5 [Str ''New''] [Str ''Cash'']
     = Inr (example_df\<lparr>rows := [[Num 4, Str ''New'', Str ''Cash'', Num 50]]\<rparr>) \<and>
   (\<exists>v'. filtered_df example_df 1 5 [Str ''New'', Str ''Repeat''] [Str ''Cash'', Str ''Card'']
            = Inr v' \<and>
         [Num 4, Str ''New'', Str ''Cash'', Num 50] \<in> set (rows v')) \<and>
   filterable example_df \<and>
   (\<exists>v. default_filtered_df example_df = Inr v)"
proof -
  let ?v = "example_df\<lparr>rows := [[Num 4, Str ''New'', Str ''Cash'', Num 50]]\<rparr>"
  have h: "filtered_df example_df 3 5 [Str ''New''] [Str ''Cash''] = Inr ?v"
    by (simp add: filtered_df_eq example_df_def row_passes_def in_range_def cell_at_def
          is_numeric_def)
  have f: "filterable example_df"
    by (simp add: filterable_def example_df_def cell_at_def is_numeric_def)
  have pre: "(1::real) \<le> 3 \<and> (5::real) \<le> 5 \<and>
      set [Str ''New''] \<subseteq> set [Str ''New'', Str ''Repeat''] \<and>
      set [Str ''Cash''] \<subseteq> set [Str ''Cash'', Str ''Card''] \<and>
      filtered_df example_df 3 5 [Str ''New''] [Str ''Cash''] = Inr ?v"
    using h by simp
  from filter_monotone have
    "\<forall>df lo hi lo' hi' cts cts' pms pms' v.
      lo' \<le> lo \<and> hi \<le> hi' \<and> set cts \<subseteq> set cts' \<and> set pms \<subseteq> set pms' \<and>
      filtered_df df lo hi cts pms = Inr v \<longrightarrow>
      (\<exists>v'. filtered_df df lo' hi' cts' pms' = Inr v' \<and>
            set (rows v) \<subseteq> set (rows v') \<and> subseq (rows v) (rows v') \<and>
            filtered_df v' lo hi cts pms = Inr v)"
    and d: "\<forall>df. filterable df \<longrightarrow> (\<exists>v. default_filtered_df df = Inr v)"
    by blast+
  from this(1) pre have
    "\<exists>v'. filtered_df example_df 1 5 [Str ''New'', Str ''Repeat''] [Str ''Cash'', Str ''Card'']
            = Inr v' \<and>
         set (rows ?v) \<subseteq> set (rows v') \<and> subseq (rows ?v) (rows v') \<and>
         filtered_df v' 3 5 [Str ''New''] [Str ''Cash''] = Inr ?v"
    by (elim allE [where x = example_df]) blast
  then have "\<exists>v'. filtered_df example_df 1 5 [Str ''New'', Str ''Repeat''] [Str ''Cash'', Str ''Card'']
            = Inr v' \<and> [Num 4, Str ''New'', Str ''Cash'', Num 50] \<in> set (rows v')"
    by auto
  with h f d show ?thesis by blast
qed

section \<open>The loader keeps the first eight columns\<close>

text \<open>
  Claim C4, as stated, fails: the loader validates nothing. On a sheet of three columns
  it raises no error and returns a table of three columns.
\<close>

theorem load_short_sheet_counterexample:
  "length (columns short_sheet) < 8 \<and>
   load_data (single_sheet_fs short_sheet) = Inr short_sheet"
  by (simp add: load_data_single iloc_cols_def short_sheet_def)

text \<open>
  Claim C4, amended. The loader fails with \<^verbatim>\<open>FileNotFoundError\<close> (ResourceNotFound)
  when the file is absent, and with that error in no other case. It does not check the
  number of columns: when the file holds the sheet the loader returns, without raising,
  a table of \<open>min 8 n\<close> columns, \<open>n\<close> the number of columns of the sheet; on fewer than
  eight columns that is a table of fewer than eight columns, the sheet's own.
\<close>

theorem load_data_outcomes:
  "(load_data fs = Inl FileNotFoundError \<longleftrightarrow>
      fs ''GJ25NS018 Karan Sen data analytics.xlsx'' = None)
   \<and> (\<forall>wb sh. fs ''GJ25NS018 Karan Sen data analytics.xlsx'' = Some wb \<and>
          wb ''Sheet1'' = Some sh \<longrightarrow>
          (\<exists>t. load_data fs = Inr t \<and>
               length (columns t) = min 8 (length (columns sh)) \<and>
               (length (columns sh) < 8 \<longrightarrow>
                  columns t = columns sh \<and> length (columns t) < 8)))"
  by (auto simp: load_data_def read_excel_def iloc_cols_def split: option.splits)

theorem load_data_outcomes_witness:
  "load_data empty_fs = Inl FileNotFoundError \<and>
   (\<exists>t. load_data (single_sheet_fs short_sheet) = Inr t \<and> length (columns t) = 3 \<and>
        columns t = columns short_sheet)"
proof -
  have a: "empty_fs ''GJ25NS018 Karan Sen data analytics.xlsx'' = None"
    by (simp add: empty_fs_def)
  have b: "single_sheet_fs short_sheet ''GJ25NS018 Karan Sen data analytics.xlsx''
             = Some (\<lambda>s. if s = ''Sheet1'' then Some short_sheet else None) \<and>
           (\<lambda>s. if s = ''Sheet1'' then Some short_sheet else None) ''Sheet1'' = Some short_sheet"
    by (simp add: single_sheet_fs_def)
  have c: "length (columns short_sheet) = 3"
    by (simp add: short_sheet_def)
  from load_data_outcomes [of empty_fs] a have 1: "load_data empty_fs = Inl FileNotFoundError"
    by blast
  from load_data_outcomes [of "single_sheet_fs short_sheet"] b obtain t where
    t: "load_data (single_sheet_fs short_sheet) = Inr t"
       "length (columns t) = min 8 (length (columns short_sheet))"
       "length (columns short_sheet) < 8 \<longrightarrow>
          columns t = columns short_sheet \<and> length (columns t) < 8"
    by blast
  from t c have "length (columns t) = 3" "columns t = columns short_sheet"
    by simp_all
  with 1 t(1) show ?thesis by blast
qed

text \<open>
  Claim C8. The table the loader returns has the first eight column names of the sheet,
  in their order, and one row for each row of the sheet, in order, holding the first
  eight cells of that row unchanged; it never has more than eight columns, and has
  exactly eight when the sheet has at least eight.
\<close>

theorem load_data_first_eight:
  assumes "load_data fs = Inr t"
  shows "\<exists>wb sh. fs ''GJ25NS018 Karan Sen data analytics.xlsx'' = Some wb \<and>
           wb ''Sheet1'' = Some sh \<and>
           columns t = take 8 (columns sh) \<and>
           rows t = map (take 8) (rows sh) \<and>
           length (rows t) = length (rows sh) \<and>
           (\<forall>i < length (rows sh). \<forall>j < 8. cell_at j (rows t ! i) = cell_at j (rows sh ! i)) \<and>
           length (columns t) \<le> 8 \<and>
           (8 \<le> length (columns sh) \<longrightarrow> length (columns t) = 8)"
  using assms
  by (auto simp: load_data_def read_excel_def iloc_cols_def cell_at_def split: option.splits)

theorem load_data_first_eight_witness:
  "load_data (single_sheet_fs wide_sheet)
     = Inr \<lparr>columns = [''Order ID'', ''Date'', ''Customer Type'', ''Payment Method'',
                 ''Order Value'', ''Delivery Time(Minutes)'', ''Delivery Distance (KM)'',
                 ''Driver Rating''],
            rows = [[Num 1, Date 19000, Str ''New'', Str ''Cash'', Num 50, Num 30, Num 4,
               Num 4]]\<rparr> \<and>
   (\<exists>t. load_data (single_sheet_fs wide_sheet) = Inr t \<and> length (columns t) = 8 \<and>
        columns t = take 8 (columns wide_sheet))"
proof -
  have h: "load_data (single_sheet_fs wide_sheet) = Inr (iloc_cols 8 wide_sheet)"
    by (rule load_data_single)
  have w: "8 \<le> length (columns wide_sheet)" by (simp add: wide_sheet_def)
  have s: "single_sheet_fs wide_sheet ''GJ25NS018 Karan Sen data analytics.xlsx''
             = Some (\<lambda>s. if s = ''Sheet1'' then Some wide_sheet else None)"
    by (simp add: single_sheet_fs_def)
  from load_data_first_eight [OF h] obtain wb sh where
    ws: "single_sheet_fs wide_sheet ''GJ25NS018 Karan Sen data analytics.xlsx'' = Some wb"
        "wb ''Sheet1'' = Some sh"
        "columns (iloc_cols 8 wide_sheet) = take 8 (columns sh)"
        "8 \<le> length (columns sh) \<longrightarrow> length (columns (iloc_cols 8 wide_sheet)) = 8"
    by blast
  from ws(1,2) s have "sh = wide_sheet" by auto
  with ws(3,4) w
  have "length (columns (iloc_cols 8 wide_sheet)) = 8 \<and>
        columns (iloc_cols 8 wide_sheet) = take 8 (columns wide_sheet)"
    by blast
  moreover have "iloc_cols 8 wide_sheet = \<lparr>columns = [''Order ID'', ''Date'', ''Customer Type'', ''Payment Method'',
                 ''Order Value'', ''Delivery Time(Minutes)'', ''Delivery Distance (KM)'',
                 ''Driver Rating''],
            rows = [[Num 1, Date 19000, Str ''New'', Str ''Cash'', Num 50, Num 30, Num 4,
               Num 4]]\<rparr>"
    by (simp add: iloc_cols_def wide_sheet_def)
  ultimately show ?thesis using h by metis
qed

section \<open>The KPIs are means over the filtered view\<close>



section \<open>Aggregation by date\<close>



section \<open>Order of the rows of Average Rating by Date\<close>

text \<open>
  Claim C6, as stated, fails: the output is not in the order in which the dates first
  appear. The view below is what the default filter returns on its base table; its
  dates first appear in the order 2, 1, and the aggregation lists them in the order 1, 2.
\<close>

theorem df_daily_order_counterexample:
  "default_filtered_df trend_df = Inr trend_df \<and>
   getitem trend_df ''Date'' = Inr [Date 2, Date 1, Date 2, NaN] \<and>
   unique [Date 2, Date 1, Date 2, NaN] = [Date 2, Date 1, NaN] \<and>
   df_daily exact_lib trend_df
     = Inr \<lparr>columns = [''Date'', ''Driver Rating''],
            rows = [[Date 1, Num 3], [Date 2, Num (9 / 2)]]\<rparr>"
proof (intro conjI)
  show "default_filtered_df trend_df = Inr trend_df"
    by (simp add: default_filtered_df_def getitem_def filtered_df_eq row_passes_def
          in_range_def is_numeric_def unique_def cell_at_def trend_df_def)
  show "getitem trend_df ''Date'' = Inr [Date 2, Date 1, Date 2, NaN]"
    by (simp add: getitem_def cell_at_def trend_df_def)
  show "unique [Date 2, Date 1, Date 2, NaN] = [Date 2, Date 1, NaN]"
    by (simp add: unique_def)
  show "df_daily exact_lib trend_df
     = Inr \<lparr>columns = [''Date'', ''Driver Rating''],
            rows = [[Date 1, Num 3], [Date 2, Num (9 / 2)]]\<rparr>"
    by (rule df_daily_trend)
qed

text \<open>
  Claim C6, amended. The rows of Average Rating by Date are in strictly ascending order
  of date (dates are ordered chronologically). The order is made by the grouping itself,
  which sorts its keys; it is the order in which the dates first appear in the filtered
  view exactly when they first appear in ascending order.
\<close>

theorem df_daily_sorted_by_date:
  assumes "df_daily L fdf = Inr g"
  shows "\<exists>i. col_index ''Date'' (columns fdf) = Some i \<and>
           sorted (map (cell_at 0) (rows g)) \<and>
           distinct (map (cell_at 0) (rows g)) \<and>
           (\<forall>d e. (Date d \<le> Date e) = (d \<le> e)) \<and>
           (let first_seen = unique (filter (\<lambda>k. k \<noteq> NaN) (map (cell_at i) (rows fdf)))
            in (map (cell_at 0) (rows g) = first_seen) = sorted first_seen)"
proof -
  from assms have "groupby_mean L fdf ''Date'' ''Driver Rating'' = Inr g"
    by (simp add: df_daily_def)
  from groupby_mean_rows [OF this] obtain i where
    i: "col_index ''Date'' (columns fdf) = Some i"
    and k: "map (cell_at 0) (rows g) = group_keys (map (cell_at i) (rows fdf))"
    by blast
  let ?xs = "filter (\<lambda>k. k \<noteq> NaN) (map (cell_at i) (rows fdf))"
  have u: "distinct (unique ?xs)" "set (unique ?xs) = set (group_keys (map (cell_at i) (rows fdf)))"
    by (simp_all add: unique_def group_keys_def)
  have "(group_keys (map (cell_at i) (rows fdf)) = unique ?xs) = sorted (unique ?xs)"
  proof
    assume "group_keys (map (cell_at i) (rows fdf)) = unique ?xs"
    then show "sorted (unique ?xs)" using group_keys_sorted by metis
  next
    assume "sorted (unique ?xs)"
    with u group_keys_sorted group_keys_distinct
    show "group_keys (map (cell_at i) (rows fdf)) = unique ?xs"
      by (metis sorted_distinct_set_unique)
  qed
  with i show ?thesis
    unfolding k by (simp add: group_keys_sorted group_keys_distinct Let_def)
qed

theorem df_daily_sorted_by_date_witness:
  "df_daily exact_lib trend_df
     = Inr \<lparr>columns = [''Date'', ''Driver Rating''],
            rows = [[Date 1, Num 3], [Date 2, Num (9 / 2)]]\<rparr> \<and>
   sorted [Date 1, Date 2] \<and> \<not> sorted [Date 2, Date 1]"
proof -
  let ?g = "\<lparr>columns = [''Date'', ''Driver Rating''],
            rows = [[Date 1, Num 3], [Date 2, Num (9 / 2)]]\<rparr>"
  have a: "df_daily exact_lib trend_df = Inr ?g"
    by (rule df_daily_trend)
  from df_daily_sorted_by_date [OF a] have "sorted (map (cell_at 0) (rows ?g))"
    by blast
  then have "sorted [Date 1, Date 2]" by (simp add: cell_at_def)
  moreover have "\<not> sorted [Date 2, Date 1]" by simp
  ultimately show ?thesis using a by blast
qed

section \<open>Rendering leaves the filtered view unchanged\<close>

text \<open>
  Claim C9. Whatever the library computes, after the twenty panels have run the filtered
  view (the object the variable \<^verbatim>\<open>filtered_df\<close> names) is what it was before: started
  on a view, rendering ends on that same frame, rows and columns. Every object that
  existed before rendering is unchanged, and what was on the page is still there. Each
  panel is pure for the variables it assigns: it changes no other variable, no earlier
  object and nothing already on the page, and what it adds to the page is determined by
  the filtered view alone, so it does not depend on what another panel has assigned,
  built or shown. The variables of different panels are different, and none of them is
  \<^verbatim>\<open>filtered_df\<close>.
\<close>

theorem render_leaves_view_unchanged:
  "(\<forall>L s t. render L s = Inr t \<longrightarrow>
      view t = view s \<and>
      vars t ''filtered_df'' = vars s ''filtered_df'' \<and>
      take (length (heap s)) (heap t) = heap s \<and>
      take (length (page s)) (page t) = page s)
   \<and> (\<forall>L fdf t. render L (initial_session fdf) = Inr t \<longrightarrow> view t = Some (VFrame fdf))
   \<and> (\<forall>L. length (panels L) = 20)
   \<and> (\<forall>L. list_all2 pure_panel (panels L) panel_writes)
   \<and> distinct (concat panel_writes)
   \<and> ''filtered_df'' \<notin> set (concat panel_writes)
   \<and> (\<forall>L. pure_panel (render L) (concat panel_writes))"
proof -
  have a: "view t = view s" "vars t ''filtered_df'' = vars s ''filtered_df''"
    "take (length (heap s)) (heap t) = heap s" "take (length (page s)) (page t) = page s"
    if "render L s = Inr t" for L s t
    using render_pure [of L] that unfolding pure_panel_def by blast+
  have b: "view t = Some (VFrame fdf)"
    if "render L (initial_session fdf) = Inr t" for L fdf t
    using a(1) [OF that] by (simp add: view_initial_session)
  have c: "length (panels L) = 20" for L
    by (simp add: panels_def)
  have d: "distinct (concat panel_writes)"
    by (simp add: panel_writes_def)
  have e: "''filtered_df'' \<notin> set (concat panel_writes)"
    by (simp add: panel_writes_def)
  show ?thesis
    by (intro conjI allI impI; (erule a b | rule c panels_pure d e render_pure))
qed

theorem render_leaves_view_unchanged_witness:
  "\<exists>t. render exact_lib (initial_session trend_df) = Inr t \<and>
       view t = Some (VFrame trend_df) \<and>
       take 1 (heap t) = [VFrame trend_df]"
proof -
  from render_trend_df obtain t where t: "render exact_lib (initial_session trend_df) = Inr t"
    by blast
  from conjunct1 [OF render_leaves_view_unchanged, THEN spec, THEN spec, THEN spec, THEN mp, OF t]
  have "view t = view (initial_session trend_df)"
    "take (length (heap (initial_session trend_df))) (heap t) = heap (initial_session trend_df)"
    by blast+
  then have "view t = Some (VFrame trend_df)" "take 1 (heap t) = [VFrame trend_df]"
    unfolding view_initial_session by (simp_all add: initial_session_def)
  with t show ?thesis by blast
qed

end
